theory Spec2Isabelle
  imports Main "HOL-Library.Word"
begin

section \<open>Python values, errors and the collaborators of \<open>rasterize.py\<close>\<close>

text \<open>
  The module \<open>geopyspark/geotrellis/rasterize.py\<close> is dynamically typed glue code: it
  normalises a few scalar parameters, encodes a payload, performs one call on the JVM
  through py4j and wraps the handle that comes back.  Its inputs are therefore
  modelled as a datatype of Python values, its exceptions as values of \<open>error\<close>, and the
  calls on the JVM as a log of dispatched calls that every function returns next to its
  result.
\<close>

type_synonym bytes = "8 word list"

datatype error =
    ValueError
  | TypeError
  | AttributeError
  | OverflowError
  | WKBError
  | Py4JError

text \<open>
  The two functions that the module maps over a distributed collection:
  \<open>lambda geom: dumps(geom)\<close> (line 63) and the \<open>lambda x: x\<close> that PySpark's
  \<open>RDD._reserialize\<close> (called at line 128) maps when the serializer changes.
\<close>

datatype pyfun = Lam_dumps | Lam_identity

text \<open>
  The two codec functions imported from \<open>geopyspark.vector_pipe.vector_pipe_protobufcodecs\<close>,
  any other function a serializer may have been built from (the plain feature codec, say),
  and the serializers an RDD can be tagged with: the context's default serializer, or a
  \<open>ProtoBufSerializer(decoding_method, encoding_method)\<close>.
\<close>

datatype codec = feature_cellvalue_decoder | feature_cellvalue_encoder | other_codec string

datatype serializer = CtxSerializer | ProtoBufSerializer codec codec

text \<open>
  A PySpark RDD as this module sees it: the elements of the underlying collection, by
  partition; the functions mapped over it and not yet run (PySpark transformations are
  lazy: \<open>map\<close> only records the function); the flag \<open>_bypass_serializer\<close>; and the
  serializer \<open>_jrdd_deserializer\<close> with which the Python workers write the elements for
  the JVM.
\<close>

datatype 'a rdd =
  RDD (partitions: "'a list list") (func: "pyfun list")
      (bypass_serializer: bool) (jrdd_deserializer: serializer)

text \<open>
  Python values.  \<open>PEnum c n v\<close> is the member \<open>n\<close> of the \<open>Enum\<close> class \<open>c\<close>, with value
  \<open>v\<close>; \<open>PFloat\<close> carries the IEEE 754 bit pattern; \<open>PObj\<close> is any other object (a Shapely
  geometry, a \<open>Feature\<close>, a \<open>RasterizerOptions\<close>, a generator, ...), which has neither a
  \<open>map\<close> nor a \<open>_reserialize\<close> attribute.
\<close>

datatype pyval =
    PNone
  | PBool bool
  | PInt int
  | PFloat "64 word"
  | PStr string
  | PBytes bytes
  | PList "pyval list"
  | PTuple "pyval list"
  | PEnum string string string
  | PRDD "pyval rdd"
  | PObj string

text \<open>
  Arguments of a call on the JVM: a Python value converted by py4j, or a reference to a
  JVM object: the Scala \<open>SparkContext\<close> (\<open>pysc._jsc.sc()\<close>) or the Scala RDD behind a
  Python RDD (\<open>rdd._jrdd.rdd()\<close>).
\<close>

datatype arg = Py pyval | JavaObject string | JavaRDD "pyval rdd"

type_synonym rpc = "string \<times> arg list"

text \<open>
  Modelled from the spec: \<open>geopyspark.geotrellis.constants\<close> is not among the sources.
  An enumeration is a closed table of members; the values of \<open>CellType\<close> and
  \<open>Partitioner\<close> are strings (the parameters are documented as
  \<open>str or CellType\<close>, \<open>str or Partitioner\<close>).  The tables themselves are parameters.
\<close>

record enum_class =
  cls_name :: string
  members :: "(string \<times> string) list"

datatype layer_type = SPATIAL | SPACETIME

text \<open>
  Modelled from the spec: \<open>geopyspark.geotrellis.layer.TiledRasterLayer\<close> is not among
  the sources; the result is the opaque handle wrapped with a layer-type tag.
\<close>

datatype tiled_raster_layer = TiledRasterLayer layer_type string

text \<open>
  Everything the module imports or reaches through py4j, as parameters:
  \<^item> \<open>dumps\<close>: \<open>shapely.wkb.dumps\<close>, which raises on what it cannot encode;
  \<open>py_float\<close>: the builtin \<open>float\<close>;
  \<^item> \<open>CellType\<close>, \<open>Partitioner\<close>: the two enumerations;
  \<^item> \<open>sc\<close>: the handle of the active Spark context, \<open>pysc._jsc.sc()\<close>;
  \<^item> \<open>serialize\<close>: how a serializer writes the elements of one partition as records
    for the JVM;
  \<^item> \<open>jvm\<close>: the remote engine, which answers a call with the id of a layer handle or
    with an error.
\<close>

record env =
  dumps :: "pyval \<Rightarrow> error + bytes"
  py_float :: "pyval \<Rightarrow> error + 64 word"
  CellType :: enum_class
  Partitioner :: enum_class
  sc :: string
  serialize :: "serializer \<Rightarrow> pyval list \<Rightarrow> error + bytes list"
  jvm :: "rpc \<Rightarrow> error + string"

section \<open>Builtins\<close>

text \<open>An exception ends the computation: what follows runs on a result only.\<close>

fun bind :: "error + 'a \<Rightarrow> ('a \<Rightarrow> error + 'b) \<Rightarrow> error + 'b" where
  "bind (Inl e) f = Inl e"
| "bind (Inr x) f = f x"

text \<open>A list comprehension or a per-element loop: the first element that raises ends it.\<close>

fun mapM :: "('a \<Rightarrow> error + 'b) \<Rightarrow> 'a list \<Rightarrow> error + 'b list" where
  "mapM f [] = Inr []"
| "mapM f (x # xs) =
     (case f x of
        Inl e \<Rightarrow> Inl e
      | Inr y \<Rightarrow> (case mapM f xs of Inl e \<Rightarrow> Inl e | Inr ys \<Rightarrow> Inr (y # ys)))"

text \<open>\<open>str\<close> of an integer: its decimal digits, with a minus sign when negative.\<close>

definition digit_char :: "nat \<Rightarrow> char" where
  "digit_char d = ''0123456789'' ! d"

function digits :: "nat \<Rightarrow> string" where
  "digits n = (if n < 10 then [digit_char n] else digits (n div 10) @ [digit_char (n mod 10)])"
  by pat_completeness auto
termination
  by (relation "measure (\<lambda>n. n)") auto

declare digits.simps [simp del]

definition str_int :: "int \<Rightarrow> string" where
  "str_int i = (if i < 0 then CHR ''-'' # digits (nat (- i)) else digits (nat i))"

text \<open>
  Lines 42-43 and 119-120: \<open>if isinstance(crs, int): crs = str(crs)\<close>.  \<open>bool\<close> is a
  subclass of \<open>int\<close>, and \<open>str(True)\<close> is \<open>'True'\<close>.  Any other value is left as it is.
\<close>

fun coerce_crs :: "pyval \<Rightarrow> pyval" where
  "coerce_crs (PInt n) = PStr (str_int n)"
| "coerce_crs (PBool b) = PStr (if b then ''True'' else ''False'')"
| "coerce_crs crs = crs"

text \<open>
  \<open>E(x)\<close> for an \<open>Enum\<close> class \<open>E\<close>: a member of \<open>E\<close> is returned as it is; otherwise the
  member whose value equals \<open>x\<close> is looked up (the first one defined, later ones with the
  same value being aliases), and \<open>ValueError\<close> is raised when there is none.  Then
  \<open>.value\<close>.
\<close>

fun enum_call :: "enum_class \<Rightarrow> pyval \<Rightarrow> error + pyval" where
  "enum_call E (PEnum c n v) = (if c = cls_name E then Inr (PEnum c n v) else Inl ValueError)"
| "enum_call E (PStr s) =
     (case find (\<lambda>m. snd m = s) (members E) of
        Some m \<Rightarrow> Inr (PEnum (cls_name E) (fst m) (snd m))
      | None \<Rightarrow> Inl ValueError)"
| "enum_call E x = Inl ValueError"

fun value_attr :: "pyval \<Rightarrow> error + string" where
  "value_attr (PEnum c n v) = Inr v"
| "value_attr x = Inl AttributeError"

definition enum_value :: "enum_class \<Rightarrow> pyval \<Rightarrow> error + string" where
  "enum_value E x = bind (enum_call E x) value_attr"

text \<open>\<open>isinstance(geoms, (list, tuple))\<close>, with the items when it holds.\<close>

fun list_or_tuple :: "pyval \<Rightarrow> pyval list option" where
  "list_or_tuple (PList xs) = Some xs"
| "list_or_tuple (PTuple xs) = Some xs"
| "list_or_tuple x = None"

section \<open>The distributed collection\<close>

text \<open>
  \<open>geoms.map(f)\<close>: on an RDD, a new pipelined RDD over the same partitions with \<open>f\<close>
  appended to the pending functions, \<open>_bypass_serializer = False\<close> and the context's
  serializer; on any other value of the model the attribute \<open>map\<close> does not exist.
\<close>

fun rdd_map :: "pyfun \<Rightarrow> pyval \<Rightarrow> error + pyval rdd" where
  "rdd_map f (PRDD r) = Inr (RDD (partitions r) (func r @ [f]) False CtxSerializer)"
| "rdd_map f x = Inl AttributeError"

definition set_bypass_serializer :: "bool \<Rightarrow> 'a rdd \<Rightarrow> 'a rdd" where
  "set_bypass_serializer b r = RDD (partitions r) (func r) b (jrdd_deserializer r)"

text \<open>
  The comparison of two serializers that PySpark makes, \<open>Serializer.__eq__\<close>: the same
  class and equal \<open>__dict__\<close>.  \<open>ProtoBufSerializer\<close> keeps \<open>decoding_method\<close> and
  \<open>encoding_method\<close> in \<open>__slots__\<close>, not in \<open>__dict__\<close>, so any two of them compare
  equal, whatever functions they were built from.
\<close>

fun serializer_eq :: "serializer \<Rightarrow> serializer \<Rightarrow> bool" where
  "serializer_eq CtxSerializer CtxSerializer = True"
| "serializer_eq (ProtoBufSerializer d e) (ProtoBufSerializer d' e') = True"
| "serializer_eq s t = False"

text \<open>
  \<open>features._reserialize(ser)\<close> (PySpark): when \<open>self._jrdd_deserializer != serializer\<close>, the
  identity is mapped over the RDD and the new RDD is tagged with \<open>ser\<close>; otherwise the RDD
  is returned as it is, with the tag it has.
\<close>

fun reserialize :: "serializer \<Rightarrow> pyval \<Rightarrow> error + pyval rdd" where
  "reserialize ser (PRDD r) =
     (if \<not> serializer_eq (jrdd_deserializer r) ser
      then Inr (RDD (partitions r) (func r @ [Lam_identity]) False ser)
      else Inr r)"
| "reserialize ser x = Inl AttributeError"

text \<open>
  What the engine gets when it runs a collection: every element goes through the pending
  functions in order, partition by partition; the elements of a partition are then written
  with the RDD's serializer, or, when \<open>_bypass_serializer\<close> is set, as they are (they
  must be byte strings then).  An element that raises fails the job.
\<close>

fun apply_pyfun :: "env \<Rightarrow> pyfun \<Rightarrow> pyval \<Rightarrow> error + pyval" where
  "apply_pyfun env Lam_dumps x = bind (dumps env x) (\<lambda>b. Inr (PBytes b))"
| "apply_pyfun env Lam_identity x = Inr x"

fun run_pipeline :: "env \<Rightarrow> pyfun list \<Rightarrow> pyval \<Rightarrow> error + pyval" where
  "run_pipeline env [] x = Inr x"
| "run_pipeline env (f # fs) x = bind (apply_pyfun env f x) (run_pipeline env fs)"

definition rdd_compute :: "env \<Rightarrow> pyval rdd \<Rightarrow> error + pyval list list" where
  "rdd_compute env r = mapM (mapM (run_pipeline env (func r))) (partitions r)"

fun raw_bytes :: "pyval \<Rightarrow> error + bytes" where
  "raw_bytes (PBytes b) = Inr b"
| "raw_bytes x = Inl TypeError"

definition write_partition :: "env \<Rightarrow> pyval rdd \<Rightarrow> pyval list \<Rightarrow> error + bytes list" where
  "write_partition env r vs =
     (if bypass_serializer r then mapM raw_bytes vs
      else serialize env (jrdd_deserializer r) vs)"

definition rdd_wire :: "env \<Rightarrow> pyval rdd \<Rightarrow> error + bytes list list" where
  "rdd_wire env r = bind (rdd_compute env r) (mapM (write_partition env r))"

section \<open>The two operations\<close>

text \<open>
  A call on the JVM is written to the log when it is dispatched, whatever it answers; the
  handle it returns is wrapped as \<open>TiledRasterLayer(LayerType.SPATIAL, srdd)\<close>
  (lines 78 and 139).  The calls logged are those of the \<open>rasterizer\<close> callable
  (\<open>rasterizeGeometry\<close>, \<open>rasterizeFeaturesWithZIndex\<close>); \<open>pysc._jsc.sc()\<close> and
  \<open>rdd._jrdd.rdd()\<close> only produce the handles that appear as first arguments.  An active
  Spark context is assumed (\<open>get_spark_context\<close> is not among the sources).  The default
  values of the keyword parameters (\<open>CellType.FLOAT64\<close>, \<open>None\<close>, \<open>CellType.INT8\<close>,
  \<open>Partitioner.HASH_PARTITIONER\<close>) are for the caller to pass: every parameter is explicit
  here.
\<close>

definition dispatch :: "env \<Rightarrow> rpc \<Rightarrow> rpc list \<times> (error + tiled_raster_layer)" where
  "dispatch env call =
     ([call],
      case jvm env call of
        Inl e \<Rightarrow> Inl e
      | Inr srdd \<Rightarrow> Inr (TiledRasterLayer SPATIAL srdd))"

text \<open>
  \<open>rasterize\<close>, lines 42-78.  The arguments of the call are evaluated from left to right
  before the call is made, so \<open>float(fill_value)\<close> and \<open>CellType(cell_type).value\<close> run
  after the payload has been built and before anything is dispatched.
\<close>

definition rasterize ::
  "env \<Rightarrow> pyval \<Rightarrow> pyval \<Rightarrow> pyval \<Rightarrow> pyval \<Rightarrow> pyval \<Rightarrow> pyval \<Rightarrow> pyval \<Rightarrow> pyval
     \<Rightarrow> rpc list \<times> (error + tiled_raster_layer)" where
  "rasterize env geoms crs zoom fill_value cell_type options num_partitions partitioner =
     (let crs = coerce_crs crs in
      case enum_value (Partitioner env) partitioner of
        Inl e \<Rightarrow> ([], Inl e)
      | Inr partitioner \<Rightarrow>
         (case list_or_tuple geoms of
            Some gs \<Rightarrow>
              (case mapM (dumps env) gs of
                 Inl e \<Rightarrow> ([], Inl e)
               | Inr wkb_geoms \<Rightarrow>
                  (case py_float env fill_value of
                     Inl e \<Rightarrow> ([], Inl e)
                   | Inr fill \<Rightarrow>
                      (case enum_value (CellType env) cell_type of
                         Inl e \<Rightarrow> ([], Inl e)
                       | Inr ct \<Rightarrow>
                          dispatch env
                            (''rasterizeGeometry'',
                             [JavaObject (sc env),
                              Py (PList (map PBytes wkb_geoms)),
                              Py crs,
                              Py zoom,
                              Py (PFloat fill),
                              Py (PStr ct),
                              Py options,
                              Py num_partitions,
                              Py (PStr partitioner)]))))
          | None \<Rightarrow>
              (case rdd_map Lam_dumps geoms of
                 Inl e \<Rightarrow> ([], Inl e)
               | Inr mapped \<Rightarrow>
                  (let wkb_rdd = set_bypass_serializer True mapped in
                   case py_float env fill_value of
                     Inl e \<Rightarrow> ([], Inl e)
                   | Inr fill \<Rightarrow>
                      (case enum_value (CellType env) cell_type of
                         Inl e \<Rightarrow> ([], Inl e)
                       | Inr ct \<Rightarrow>
                          dispatch env
                            (''rasterizeGeometry'',
                             [JavaRDD wkb_rdd,
                              Py crs,
                              Py zoom,
                              Py (PFloat fill),
                              Py (PStr ct),
                              Py options,
                              Py num_partitions,
                              Py (PStr partitioner)]))))))"

text \<open>\<open>rasterize_features\<close>, lines 119-139.\<close>

definition rasterize_features ::
  "env \<Rightarrow> pyval \<Rightarrow> pyval \<Rightarrow> pyval \<Rightarrow> pyval \<Rightarrow> pyval \<Rightarrow> pyval \<Rightarrow> pyval \<Rightarrow> pyval
     \<Rightarrow> rpc list \<times> (error + tiled_raster_layer)" where
  "rasterize_features env features crs zoom cell_type options num_partitions
       zindex_cell_type partitioner =
     (let crs = coerce_crs crs in
      case enum_value (Partitioner env) partitioner of
        Inl e \<Rightarrow> ([], Inl e)
      | Inr partitioner \<Rightarrow>
         (let ser = ProtoBufSerializer feature_cellvalue_decoder feature_cellvalue_encoder in
          case reserialize ser features of
            Inl e \<Rightarrow> ([], Inl e)
          | Inr reserialized_rdd \<Rightarrow>
             (case enum_value (CellType env) cell_type of
                Inl e \<Rightarrow> ([], Inl e)
              | Inr ct \<Rightarrow>
                 (case enum_value (CellType env) zindex_cell_type of
                    Inl e \<Rightarrow> ([], Inl e)
                  | Inr zct \<Rightarrow>
                     dispatch env
                       (''rasterizeFeaturesWithZIndex'',
                        [JavaRDD reserialized_rdd,
                         Py crs,
                         Py zoom,
                         Py (PStr ct),
                         Py options,
                         Py num_partitions,
                         Py (PStr zct),
                         Py (PStr partitioner)])))))"

section \<open>Observations and a concrete environment\<close>

text \<open>\<open>RDD.getNumPartitions\<close> (PySpark): the number of partitions of a collection.\<close>

definition getNumPartitions :: "'a rdd \<Rightarrow> nat" where
  "getNumPartitions r = length (partitions r)"

text \<open>The collection a dispatched call carries as its first argument, if it carries one.\<close>

fun submitted_rdd :: "rpc \<Rightarrow> pyval rdd option" where
  "submitted_rdd (name, JavaRDD r # args) = Some r"
| "submitted_rdd call = None"

text \<open>
  The two tests on a value that the module makes: \<open>isinstance(crs, int)\<close>, and whether
  \<open>geoms.map\<close> can be looked up.
\<close>

fun isinstance_int :: "pyval \<Rightarrow> bool" where
  "isinstance_int (PInt n) = True"
| "isinstance_int (PBool b) = True"
| "isinstance_int x = False"

fun hasattr_map :: "pyval \<Rightarrow> bool" where
  "hasattr_map (PRDD r) = True"
| "hasattr_map x = False"

text \<open>The number written by a string of decimal digits, to read \<open>str_int\<close> back.\<close>

definition decimal_value :: "string \<Rightarrow> nat" where
  "decimal_value s = foldl (\<lambda>a c. 10 * a + (of_char c - 48)) 0 s"

text \<open>
  An environment to run the operations in on examples.  A geometry is an object; its
  encoding is the bytes of its label, and anything else (\<open>None\<close>, a number) cannot be
  encoded.  \<open>float\<close> is given on floats only.  The engine answers every call with the
  handle \<open>o42\<close>, except that a call carrying a collection runs that collection first and
  fails when an element of it cannot be written.
  The fill value of the examples is \<open>1.0\<close>, as its bit pattern.
\<close>

definition label_bytes :: "pyval \<Rightarrow> error + bytes" where
  "label_bytes x = (case x of PObj s \<Rightarrow> Inr (map (\<lambda>c. of_nat (of_char c)) s) | _ \<Rightarrow> Inl WKBError)"

definition float_one :: "64 word" where
  "float_one = 0x3FF0000000000000"

definition base_env :: env where
  "base_env =
     \<lparr> dumps = label_bytes,
       py_float = (\<lambda>x. case x of PFloat w \<Rightarrow> Inr w | _ \<Rightarrow> Inl TypeError),
       CellType = \<lparr> cls_name = ''CellType'',
                    members = [(''INT8'', ''int8''), (''FLOAT64'', ''float64'')] \<rparr>,
       Partitioner = \<lparr> cls_name = ''Partitioner'',
                       members = [(''HASH_PARTITIONER'', ''HashPartitioner''),
                                  (''SPATIAL_PARTITIONER'', ''SpatialPartitioner'')] \<rparr>,
       sc = ''o17'',
       serialize = (\<lambda>ser. mapM label_bytes),
       jvm = (\<lambda>call. Inr ''o42'') \<rparr>"

definition example_env :: env where
  "example_env =
     base_env \<lparr> jvm := (\<lambda>call. case submitted_rdd call of
                           None \<Rightarrow> Inr ''o42''
                         | Some r \<Rightarrow> (case rdd_wire base_env r of
                                       Inl e \<Rightarrow> Inl Py4JError
                                     | Inr records \<Rightarrow> Inr ''o42'')) \<rparr>"


section \<open>Lemmas on the builtins and on collections\<close>

lemma bind_Inr_iff: "bind m f = Inr y \<longleftrightarrow> (\<exists>x. m = Inr x \<and> f x = Inr y)"
  by (cases m) simp_all

lemma mapM_Inr_list_all2: "mapM f xs = Inr ys \<Longrightarrow> list_all2 (\<lambda>x y. f x = Inr y) xs ys"
proof (induction xs arbitrary: ys)
  case Nil
  then show ?case by simp
next
  case (Cons x xs)
  then show ?case by (auto split: sum.splits)
qed

lemma mapM_fuse:
  assumes "\<And>x y. x \<in> set xs \<Longrightarrow> f x = Inr y \<Longrightarrow> \<not> isl (g y)"
  shows "bind (mapM f xs) (mapM g) = mapM (\<lambda>x. bind (f x) g) xs"
  using assms
proof (induction xs)
  case Nil
  show ?case by simp
next
  case (Cons x xs)
  have IH: "bind (mapM f xs) (mapM g) = mapM (\<lambda>x. bind (f x) g) xs"
    by (rule Cons.IH) (rule Cons.prems, simp_all)
  show ?case
  proof (cases "f x")
    case (Inl e)
    then show ?thesis by simp
  next
    case (Inr y)
    then obtain z where z: "g y = Inr z"
      using Cons.prems [of x y] by (cases "g y") simp_all
    show ?thesis
    proof (cases "mapM f xs")
      case (Inl e)
      with IH have "mapM (\<lambda>x. bind (f x) g) xs = Inl e" by simp
      with Inl Inr z show ?thesis by simp
    next
      case ys: (Inr ys)
      with IH have "mapM (\<lambda>x. bind (f x) g) xs = mapM g ys" by simp
      with ys Inr z show ?thesis by simp
    qed
  qed
qed

lemma mapM_cong: "(\<And>x. x \<in> set xs \<Longrightarrow> f x = g x) \<Longrightarrow> mapM f xs = mapM g xs"
proof (induction xs)
  case Nil
  show ?case by simp
next
  case (Cons x xs)
  have "f x = g x" by (rule Cons.prems) simp
  moreover have "mapM f xs = mapM g xs" by (rule Cons.IH) (rule Cons.prems, simp)
  ultimately show ?case by (simp split: sum.splits)
qed

lemma mapM_bind_Inr:
  "mapM (\<lambda>x. bind (f x) g) xs = Inr ys \<Longrightarrow>
     \<exists>ms. mapM f xs = Inr ms \<and> list_all2 (\<lambda>m y. g m = Inr y) ms ys"
proof (induction xs arbitrary: ys)
  case Nil
  then show ?case by simp
next
  case (Cons x xs)
  then show ?case
    by (cases "f x") (force split: sum.splits)+
qed

lemma mapM_mapM_bind_Inr:
  "mapM (mapM (\<lambda>x. bind (f x) g)) ps = Inr yss \<Longrightarrow>
     \<exists>xss. mapM (mapM f) ps = Inr xss \<and> list_all2 (list_all2 (\<lambda>m y. g m = Inr y)) xss yss"
proof (induction ps arbitrary: yss)
  case Nil
  then show ?case by simp
next
  case (Cons p ps)
  from Cons.prems obtain ys yss' where
    p: "mapM (\<lambda>x. bind (f x) g) p = Inr ys" and
    ps: "mapM (mapM (\<lambda>x. bind (f x) g)) ps = Inr yss'" and
    yss: "yss = ys # yss'"
    by (auto split: sum.splits)
  from mapM_bind_Inr [OF p] obtain ms where
    ms: "mapM f p = Inr ms" "list_all2 (\<lambda>m y. g m = Inr y) ms ys" by blast
  from Cons.IH [OF ps] obtain xss where
    xss: "mapM (mapM f) ps = Inr xss" "list_all2 (list_all2 (\<lambda>m y. g m = Inr y)) xss yss'"
    by blast
  show ?case using ms xss yss by simp
qed

lemma list_all2_lengths:
  "list_all2 (list_all2 R) xss yss \<Longrightarrow> map length xss = map length yss"
  by (induction xss yss rule: list_all2_induct) (simp_all add: list_all2_lengthD)

lemma run_pipeline_append:
  "run_pipeline env (fs @ gs) x = bind (run_pipeline env fs x) (run_pipeline env gs)"
proof (induction fs arbitrary: x)
  case Nil
  show ?case by simp
next
  case (Cons f fs)
  show ?case
    by (cases "apply_pyfun env f x") (simp_all add: Cons.IH)
qed

lemma run_pipeline_snoc:
  "run_pipeline env (fs @ [f]) x = bind (run_pipeline env fs x) (apply_pyfun env f)"
proof -
  have "run_pipeline env [f] = apply_pyfun env f"
  proof
    fix y show "run_pipeline env [f] y = apply_pyfun env f y"
      by (cases "apply_pyfun env f y") simp_all
  qed
  then show ?thesis by (simp add: run_pipeline_append)
qed

lemma run_pipeline_identity:
  "run_pipeline env (fs @ [Lam_identity]) = run_pipeline env fs"
proof
  fix x show "run_pipeline env (fs @ [Lam_identity]) x = run_pipeline env fs x"
    by (cases "run_pipeline env fs x") (simp_all add: run_pipeline_snoc)
qed

lemma apply_dumps_Inr:
  "apply_pyfun env Lam_dumps x = Inr y \<longleftrightarrow> (\<exists>b. dumps env x = Inr b \<and> y = PBytes b)"
  by (cases "dumps env x") auto

lemma mapM_raw_bytes_dumps:
  "bind (mapM (\<lambda>x. bind (h x) (apply_pyfun env Lam_dumps)) p) (mapM raw_bytes)
     = mapM (\<lambda>x. bind (h x) (dumps env)) p"
proof -
  have "bind (mapM (\<lambda>x. bind (h x) (apply_pyfun env Lam_dumps)) p) (mapM raw_bytes)
      = mapM (\<lambda>x. bind (bind (h x) (apply_pyfun env Lam_dumps)) raw_bytes) p"
    by (rule mapM_fuse) (auto simp: bind_Inr_iff apply_dumps_Inr simp del: apply_pyfun.simps)
  also have "\<dots> = mapM (\<lambda>x. bind (h x) (dumps env)) p"
  proof (rule mapM_cong)
    fix x
    show "bind (bind (h x) (apply_pyfun env Lam_dumps)) raw_bytes = bind (h x) (dumps env)"
    proof (cases "h x")
      case (Inl e)
      then show ?thesis by simp
    next
      case (Inr y)
      then show ?thesis by (cases "dumps env y") simp_all
    qed
  qed
  finally show ?thesis .
qed

lemma mapM_raw_bytes_total:
  assumes "mapM (\<lambda>x. bind (h x) (apply_pyfun env Lam_dumps)) p = Inr ys"
  shows "\<not> isl (mapM raw_bytes ys)"
proof -
  from mapM_bind_Inr [OF assms] obtain ms where
    "list_all2 (\<lambda>m y. apply_pyfun env Lam_dumps m = Inr y) ms ys" by blast
  then have "list_all2 (\<lambda>m y. \<exists>b. y = PBytes b) ms ys"
    by (rule list_all2_mono) (auto simp: apply_dumps_Inr simp del: apply_pyfun.simps)
  then show ?thesis
    by (induction ms ys rule: list_all2_induct) (auto split: sum.splits)
qed

lemma rdd_wire_bypassed_dumps:
  "rdd_wire env (RDD ps (fs @ [Lam_dumps]) True s)
     = mapM (mapM (\<lambda>x. bind (run_pipeline env fs x) (dumps env))) ps"
proof -
  let ?F = "\<lambda>x. bind (run_pipeline env fs x) (apply_pyfun env Lam_dumps)"
  have F: "run_pipeline env (fs @ [Lam_dumps]) = ?F"
    by (rule ext) (rule run_pipeline_snoc)
  have "rdd_wire env (RDD ps (fs @ [Lam_dumps]) True s)
      = bind (mapM (mapM ?F) ps) (mapM (mapM raw_bytes))"
  proof -
    have "write_partition env (RDD ps (fs @ [Lam_dumps]) True s) = mapM raw_bytes"
      by (rule ext) (simp add: write_partition_def)
    then show ?thesis by (simp add: rdd_wire_def rdd_compute_def F)
  qed
  also have "\<dots> = mapM (\<lambda>p. bind (mapM ?F p) (mapM raw_bytes)) ps"
    by (rule mapM_fuse) (rule mapM_raw_bytes_total)
  also have "\<dots> = mapM (mapM (\<lambda>x. bind (run_pipeline env fs x) (dumps env))) ps"
    by (rule mapM_cong) (rule mapM_raw_bytes_dumps)
  finally show ?thesis .
qed

lemma rdd_compute_mapped_dumps:
  assumes "rdd_compute env (RDD (partitions r) (func r @ [Lam_dumps]) b s) = Inr yss"
  shows "\<exists>xss. rdd_compute env r = Inr xss
           \<and> list_all2 (list_all2 (\<lambda>x y. \<exists>w. dumps env x = Inr w \<and> y = PBytes w)) xss yss"
proof -
  have F: "run_pipeline env (func r @ [Lam_dumps])
             = (\<lambda>x. bind (run_pipeline env (func r) x) (apply_pyfun env Lam_dumps))"
    by (rule ext) (rule run_pipeline_snoc)
  from assms have
    "mapM (mapM (\<lambda>x. bind (run_pipeline env (func r) x) (apply_pyfun env Lam_dumps)))
       (partitions r) = Inr yss"
    by (simp add: rdd_compute_def F)
  from mapM_mapM_bind_Inr [OF this] obtain xss where
    xss: "mapM (mapM (run_pipeline env (func r))) (partitions r) = Inr xss"
      "list_all2 (list_all2 (\<lambda>m y. apply_pyfun env Lam_dumps m = Inr y)) xss yss"
    by blast
  have "(\<lambda>m y. apply_pyfun env Lam_dumps m = Inr y)
          = (\<lambda>x y. \<exists>w. dumps env x = Inr w \<and> y = PBytes w)"
    by (intro ext) (rule apply_dumps_Inr)
  with xss show ?thesis by (simp add: rdd_compute_def)
qed

lemma rdd_compute_reserialized:
  "rdd_compute env (RDD (partitions r) (func r @ [Lam_identity]) b s) = rdd_compute env r"
  by (simp add: rdd_compute_def run_pipeline_identity)

lemma coerce_crs_other: "\<not> isinstance_int crs \<Longrightarrow> coerce_crs crs = crs"
  by (cases crs) simp_all

lemma digit_char_value: "d < 10 \<Longrightarrow> of_char (digit_char d) = 48 + d"
proof -
  assume "d < 10"
  then have "d \<in> {0, 1, 2, 3, 4, 5, 6, 7, 8, 9}" by auto
  then show ?thesis by (auto simp: digit_char_def)
qed

lemma decimal_value_digits: "decimal_value (digits n) = n"
proof (induction n rule: digits.induct)
  case (1 n)
  show ?case
  proof (cases "n < 10")
    case True
    then show ?thesis
      by (subst digits.simps) (simp add: decimal_value_def digit_char_value)
  next
    case False
    have "decimal_value (digits n)
        = 10 * decimal_value (digits (n div 10)) + (of_char (digit_char (n mod 10)) - 48)"
      using False by (subst digits.simps) (simp add: decimal_value_def)
    also have "\<dots> = 10 * (n div 10) + n mod 10"
      using False "1.IH" by (simp add: digit_char_value)
    finally show ?thesis by simp
  qed
qed

lemma find_value_member:
  "(n, v) \<in> set ms \<Longrightarrow> \<exists>m. find (\<lambda>m. snd m = v) ms = Some m \<and> snd m = v"
  by (induction ms) auto

lemma enum_value_member:
  assumes "(n, v) \<in> set (members E)"
  shows "enum_value E (PStr v) = Inr v" and "enum_value E (PEnum (cls_name E) n v) = Inr v"
proof -
  from find_value_member [OF assms] obtain m where
    "find (\<lambda>m. snd m = v) (members E) = Some m" "snd m = v" by blast
  then show "enum_value E (PStr v) = Inr v" by (simp add: enum_value_def)
  show "enum_value E (PEnum (cls_name E) n v) = Inr v" by (simp add: enum_value_def)
qed

lemma enum_value_unknown_string:
  assumes "s \<notin> snd ` set (members E)"
  shows "enum_value E (PStr s) = Inl ValueError"
proof -
  have "find (\<lambda>m. snd m = s) (members E) = None"
    using assms by (force simp: find_None_iff)
  then show ?thesis by (simp add: enum_value_def)
qed

lemma rdd_map_no_attr: "\<not> hasattr_map geoms \<Longrightarrow> rdd_map f geoms = Inl AttributeError"
  by (cases geoms) simp_all

lemma rdd_map_Inr_attr: "rdd_map f geoms = Inr mapped \<Longrightarrow> hasattr_map geoms"
  by (cases geoms) simp_all

lemma example_env_simps:
  "dumps example_env = label_bytes"
  "py_float example_env (PFloat w) = Inr w"
  "enum_value (CellType example_env) (PStr ''float64'') = Inr ''float64''"
  "enum_value (CellType example_env) (PStr ''int8'') = Inr ''int8''"
  "enum_value (Partitioner example_env) (PStr ''HashPartitioner'') = Inr ''HashPartitioner''"
  "sc example_env = ''o17''"
  by (simp_all add: example_env_def base_env_def enum_value_def)

lemma label_bytes_simps:
  "label_bytes (PObj ''P'') = Inr [80]"
  "label_bytes (PObj ''Q'') = Inr [81]"
  "label_bytes PNone = Inl WKBError"
  by (simp_all add: label_bytes_def)


section \<open>The claims\<close>

text \<open>
  Claim C1.  For a distributed collection given to \<open>rasterize\<close>, with parameters that
  normalise, exactly one call \<open>rasterizeGeometry\<close> is dispatched; its first argument is the
  collection mapped through \<open>dumps\<close> (a collection, not a local list of byte strings),
  marked \<open>_bypass_serializer\<close>; and the records this collection puts on the wire are the
  bytes \<open>dumps\<close> returns for each element, whatever the framework's serializers would do.
\<close>

theorem rasterize_rdd_bypasses_serializer:
  assumes "enum_value (Partitioner env) partitioner = Inr p"
    and "py_float env fill_value = Inr fill"
    and "enum_value (CellType env) cell_type = Inr ct"
  shows "\<exists>wkb_rdd.
           fst (rasterize env (PRDD r) crs zoom fill_value cell_type options num_partitions
                  partitioner)
             = [(''rasterizeGeometry'',
                 [JavaRDD wkb_rdd, Py (coerce_crs crs), Py zoom, Py (PFloat fill), Py (PStr ct),
                  Py options, Py num_partitions, Py (PStr p)])]
           \<and> bypass_serializer wkb_rdd
           \<and> rdd_wire env wkb_rdd
               = mapM (mapM (\<lambda>g. bind (run_pipeline env (func r) g) (dumps env))) (partitions r)"
proof -
  let ?wkb = "RDD (partitions r) (func r @ [Lam_dumps]) True CtxSerializer"
  have "fst (rasterize env (PRDD r) crs zoom fill_value cell_type options num_partitions
               partitioner)
          = [(''rasterizeGeometry'',
              [JavaRDD ?wkb, Py (coerce_crs crs), Py zoom, Py (PFloat fill), Py (PStr ct),
               Py options, Py num_partitions, Py (PStr p)])]"
    using assms by (simp add: rasterize_def dispatch_def set_bypass_serializer_def Let_def)
  moreover have "bypass_serializer ?wkb" by simp
  moreover have "rdd_wire env ?wkb
      = mapM (mapM (\<lambda>g. bind (run_pipeline env (func r) g) (dumps env))) (partitions r)"
    by (rule rdd_wire_bypassed_dumps)
  ultimately show ?thesis by blast
qed

theorem rasterize_rdd_bypasses_serializer_witness:
  "enum_value (Partitioner example_env) (PStr ''HashPartitioner'') = Inr ''HashPartitioner''
   \<and> py_float example_env (PFloat float_one) = Inr float_one
   \<and> enum_value (CellType example_env) (PStr ''float64'') = Inr ''float64''
   \<and> (\<exists>wkb_rdd.
         fst (rasterize example_env (PRDD (RDD [ [PObj ''P''], [PObj ''Q''] ] [] False CtxSerializer))
                (PInt 4326) (PInt 3) (PFloat float_one) (PStr ''float64'') PNone PNone
                (PStr ''HashPartitioner''))
           = [(''rasterizeGeometry'',
               [JavaRDD wkb_rdd, Py (coerce_crs (PInt 4326)), Py (PInt 3), Py (PFloat float_one),
                Py (PStr ''float64''), Py PNone, Py PNone, Py (PStr ''HashPartitioner'')])]
         \<and> bypass_serializer wkb_rdd
         \<and> rdd_wire example_env wkb_rdd
             = mapM (mapM (\<lambda>g. bind (run_pipeline example_env
                     (func (RDD [ [PObj ''P''], [PObj ''Q''] ] [] False CtxSerializer)) g)
                     (dumps example_env)))
                 (partitions (RDD [ [PObj ''P''], [PObj ''Q''] ] [] False CtxSerializer)))"
proof -
  have h1: "enum_value (Partitioner example_env) (PStr ''HashPartitioner'') = Inr ''HashPartitioner''"
    by (simp add: example_env_simps)
  have h2: "py_float example_env (PFloat float_one) = Inr float_one"
    by (simp add: example_env_simps)
  have h3: "enum_value (CellType example_env) (PStr ''float64'') = Inr ''float64''"
    by (simp add: example_env_simps)
  show ?thesis
    by (intro conjI h1 h2 h3 rasterize_rdd_bypasses_serializer [OF h1 h2 h3])
qed

text \<open>
  Claim C2, as amended.  A list or tuple given to \<open>rasterize\<close> that holds a geometry
  \<open>dumps\<close> cannot encode fails locally, with no call dispatched.  For a distributed
  collection given to \<open>rasterize\<close> or \<open>rasterize_features\<close> nothing is encoded locally
  (\<open>map\<close> and \<open>_reserialize\<close> only record what is to be done): the single call is
  dispatched whenever the scalar parameters normalise, whatever the elements are.  No
  operation ever dispatches more than one call.
\<close>

theorem encoding_failure_local_only_for_sequences:
  "(list_or_tuple geoms = Some gs \<and> isl (mapM (dumps env) gs) \<longrightarrow>
      fst (rasterize env geoms crs zoom fill_value cell_type options num_partitions partitioner) = []
      \<and> isl (snd (rasterize env geoms crs zoom fill_value cell_type options num_partitions
                    partitioner)))
   \<and> (\<not> isl (enum_value (Partitioner env) partitioner) \<and> \<not> isl (py_float env fill_value)
        \<and> \<not> isl (enum_value (CellType env) cell_type) \<longrightarrow>
      length (fst (rasterize env (PRDD r) crs zoom fill_value cell_type options num_partitions
                     partitioner)) = 1)
   \<and> (\<not> isl (enum_value (Partitioner env) partitioner)
        \<and> \<not> isl (enum_value (CellType env) cell_type)
        \<and> \<not> isl (enum_value (CellType env) zindex_cell_type) \<longrightarrow>
      length (fst (rasterize_features env (PRDD r) crs zoom cell_type options num_partitions
                     zindex_cell_type partitioner)) = 1)
   \<and> length (fst (rasterize env geoms crs zoom fill_value cell_type options num_partitions
                    partitioner)) \<le> 1
   \<and> length (fst (rasterize_features env features crs zoom cell_type options num_partitions
                    zindex_cell_type partitioner)) \<le> 1"
proof (intro conjI impI)
  assume "list_or_tuple geoms = Some gs \<and> isl (mapM (dumps env) gs)"
  then show "fst (rasterize env geoms crs zoom fill_value cell_type options num_partitions
                    partitioner) = []"
    and "isl (snd (rasterize env geoms crs zoom fill_value cell_type options num_partitions
                     partitioner))"
    by (auto simp: rasterize_def Let_def isl_def split: sum.splits)
next
  assume "\<not> isl (enum_value (Partitioner env) partitioner) \<and> \<not> isl (py_float env fill_value)
        \<and> \<not> isl (enum_value (CellType env) cell_type)"
  then show "length (fst (rasterize env (PRDD r) crs zoom fill_value cell_type options
                            num_partitions partitioner)) = 1"
    by (auto simp: rasterize_def dispatch_def Let_def isl_def split: sum.splits)
next
  assume "\<not> isl (enum_value (Partitioner env) partitioner)
        \<and> \<not> isl (enum_value (CellType env) cell_type)
        \<and> \<not> isl (enum_value (CellType env) zindex_cell_type)"
  then show "length (fst (rasterize_features env (PRDD r) crs zoom cell_type options
                            num_partitions zindex_cell_type partitioner)) = 1"
    by (auto simp: rasterize_features_def dispatch_def Let_def isl_def split: sum.splits)
next
  show "length (fst (rasterize env geoms crs zoom fill_value cell_type options num_partitions
                       partitioner)) \<le> 1"
    by (simp add: rasterize_def dispatch_def Let_def split: sum.splits option.splits)
next
  show "length (fst (rasterize_features env features crs zoom cell_type options num_partitions
                       zindex_cell_type partitioner)) \<le> 1"
    by (simp add: rasterize_features_def dispatch_def Let_def split: sum.splits)
qed

theorem encoding_failure_local_only_for_sequences_witness:
  "list_or_tuple (PList [PObj ''P'', PNone]) = Some [PObj ''P'', PNone]
   \<and> isl (mapM (dumps example_env) [PObj ''P'', PNone])
   \<and> fst (rasterize example_env (PList [PObj ''P'', PNone]) (PInt 4326) (PInt 3) (PFloat float_one)
            (PStr ''float64'') PNone PNone (PStr ''HashPartitioner'')) = []
   \<and> isl (snd (rasterize example_env (PList [PObj ''P'', PNone]) (PInt 4326) (PInt 3) (PFloat float_one)
                 (PStr ''float64'') PNone PNone (PStr ''HashPartitioner'')))
   \<and> \<not> isl (enum_value (Partitioner example_env) (PStr ''HashPartitioner''))
   \<and> \<not> isl (py_float example_env (PFloat float_one))
   \<and> \<not> isl (enum_value (CellType example_env) (PStr ''float64''))
   \<and> \<not> isl (enum_value (CellType example_env) (PStr ''int8''))
   \<and> length (fst (rasterize example_env (PRDD (RDD [ [PObj ''P'', PNone] ] [] False CtxSerializer))
                    (PInt 4326) (PInt 3) (PFloat float_one) (PStr ''float64'') PNone PNone
                    (PStr ''HashPartitioner''))) = 1
   \<and> length (fst (rasterize_features example_env
                    (PRDD (RDD [ [PObj ''P'', PNone] ] [] False CtxSerializer))
                    (PInt 4326) (PInt 3) (PStr ''float64'') PNone PNone (PStr ''int8'')
                    (PStr ''HashPartitioner''))) = 1"
proof -
  have h1: "list_or_tuple (PList [PObj ''P'', PNone]) = Some [PObj ''P'', PNone]" by simp
  have h2: "isl (mapM (dumps example_env) [PObj ''P'', PNone])"
    by (simp add: example_env_simps label_bytes_simps)
  have h3: "\<not> isl (enum_value (Partitioner example_env) (PStr ''HashPartitioner''))"
    by (simp add: example_env_simps)
  have h4: "\<not> isl (py_float example_env (PFloat float_one))"
    by (simp add: example_env_simps)
  have h5: "\<not> isl (enum_value (CellType example_env) (PStr ''float64''))"
    by (simp add: example_env_simps)
  have h6: "\<not> isl (enum_value (CellType example_env) (PStr ''int8''))"
    by (simp add: example_env_simps)
  from encoding_failure_local_only_for_sequences
         [of "PList [PObj ''P'', PNone]" "[PObj ''P'', PNone]" example_env "PInt 4326" "PInt 3"
             "PFloat float_one" "PStr ''float64''" PNone PNone "PStr ''HashPartitioner''"
             "RDD [ [PObj ''P'', PNone] ] [] False CtxSerializer" "PStr ''int8''"]
  show ?thesis using h1 h2 h3 h4 h5 h6 by simp
qed

text \<open>
  Claim C2 as stated fails on the code: a distributed collection whose only element is
  \<open>None\<close>, which \<open>dumps\<close> rejects, still has its call dispatched, and the failure comes
  back from the engine.
\<close>

theorem encoding_failure_before_call_counterexample:
  "isl (mapM (dumps example_env) [PNone])
   \<and> rasterize example_env (PRDD (RDD [ [PNone] ] [] False CtxSerializer))
        (PInt 4326) (PInt 3) (PFloat float_one) (PStr ''float64'') PNone PNone (PStr ''HashPartitioner'')
      = ([(''rasterizeGeometry'',
           [JavaRDD (RDD [ [PNone] ] [Lam_dumps] True CtxSerializer), Py (PStr ''4326''),
            Py (PInt 3), Py (PFloat float_one), Py (PStr ''float64''), Py PNone, Py PNone,
            Py (PStr ''HashPartitioner'')])],
         Inl Py4JError)"
  by (simp add: rasterize_def dispatch_def set_bypass_serializer_def Let_def example_env_simps
        label_bytes_simps str_int_def digits.simps digit_char_def)
     (simp add: example_env_def base_env_def rdd_wire_def rdd_compute_def label_bytes_simps)

text \<open>
  Claim C3, as amended.  Neither operation checks the type of \<open>crs\<close>.  A \<open>crs\<close> that
  is not an integer (a string or anything else) is the \<open>crs\<close> argument of every call
  dispatched, unchanged, and whether a call is dispatched is the same as for a string.
\<close>

theorem crs_is_not_validated:
  assumes "\<not> isinstance_int crs"
  shows "(fst (rasterize env geoms crs zoom fill_value cell_type options num_partitions
                  partitioner) = []
            \<longleftrightarrow> fst (rasterize env geoms (PStr s) zoom fill_value cell_type options
                       num_partitions partitioner) = [])
         \<and> (\<forall>call \<in> set (fst (rasterize env geoms crs zoom fill_value cell_type options
                                  num_partitions partitioner)).
               snd call ! (case list_or_tuple geoms of None \<Rightarrow> 1 | Some gs \<Rightarrow> 2) = Py crs)
         \<and> (fst (rasterize_features env features crs zoom cell_type options num_partitions
                    zindex_cell_type partitioner) = []
            \<longleftrightarrow> fst (rasterize_features env features (PStr s) zoom cell_type options
                       num_partitions zindex_cell_type partitioner) = [])
         \<and> (\<forall>call \<in> set (fst (rasterize_features env features crs zoom cell_type options
                                  num_partitions zindex_cell_type partitioner)).
               snd call ! 1 = Py crs)"
proof -
  have crs: "coerce_crs crs = crs"
    using assms by (rule coerce_crs_other)
  show ?thesis
  proof (intro conjI)
    show "fst (rasterize env geoms crs zoom fill_value cell_type options num_partitions
                 partitioner) = []
            \<longleftrightarrow> fst (rasterize env geoms (PStr s) zoom fill_value cell_type options
                       num_partitions partitioner) = []"
      by (simp add: rasterize_def dispatch_def Let_def split: sum.splits option.splits)
    show "\<forall>call \<in> set (fst (rasterize env geoms crs zoom fill_value cell_type options
                               num_partitions partitioner)).
            snd call ! (case list_or_tuple geoms of None \<Rightarrow> 1 | Some gs \<Rightarrow> 2) = Py crs"
      by (simp add: rasterize_def dispatch_def Let_def crs split: sum.splits option.splits)
    show "fst (rasterize_features env features crs zoom cell_type options num_partitions
                 zindex_cell_type partitioner) = []
            \<longleftrightarrow> fst (rasterize_features env features (PStr s) zoom cell_type options
                       num_partitions zindex_cell_type partitioner) = []"
      by (simp add: rasterize_features_def dispatch_def Let_def split: sum.splits)
    show "\<forall>call \<in> set (fst (rasterize_features env features crs zoom cell_type options
                               num_partitions zindex_cell_type partitioner)).
            snd call ! 1 = Py crs"
      by (simp add: rasterize_features_def dispatch_def Let_def crs split: sum.splits)
  qed
qed

theorem crs_is_not_validated_witness:
  "\<not> isinstance_int PNone
   \<and> fst (rasterize example_env (PList [PObj ''P'']) PNone (PInt 3) (PFloat float_one) (PStr ''float64'')
            PNone PNone (PStr ''HashPartitioner'')) \<noteq> []
   \<and> snd (hd (fst (rasterize example_env (PList [PObj ''P'']) PNone (PInt 3) (PFloat float_one)
                     (PStr ''float64'') PNone PNone (PStr ''HashPartitioner'')))) ! 2 = Py PNone
   \<and> fst (rasterize_features example_env (PRDD (RDD [ [PObj ''P''] ] [] False CtxSerializer))
            PNone (PInt 3) (PStr ''float64'') PNone PNone (PStr ''int8'')
            (PStr ''HashPartitioner'')) \<noteq> []
   \<and> snd (hd (fst (rasterize_features example_env
                     (PRDD (RDD [ [PObj ''P''] ] [] False CtxSerializer))
                     PNone (PInt 3) (PStr ''float64'') PNone PNone (PStr ''int8'')
                     (PStr ''HashPartitioner'')))) ! 1 = Py PNone"
proof -
  let ?L = "fst (rasterize example_env (PList [PObj ''P'']) PNone (PInt 3) (PFloat float_one)
                   (PStr ''float64'') PNone PNone (PStr ''HashPartitioner''))"
  let ?M = "fst (rasterize_features example_env (PRDD (RDD [ [PObj ''P''] ] [] False CtxSerializer))
                   PNone (PInt 3) (PStr ''float64'') PNone PNone (PStr ''int8'')
                   (PStr ''HashPartitioner''))"
  have h: "\<not> isinstance_int PNone" by simp
  have n1: "?L \<noteq> []"
    by (simp add: rasterize_def dispatch_def Let_def example_env_simps label_bytes_simps)
  have n2: "?M \<noteq> []"
    by (simp add: rasterize_features_def dispatch_def Let_def example_env_simps)
  have l: "list_or_tuple (PList [PObj ''P'']) = Some [PObj ''P'']" by simp
  from n1 have m1: "hd ?L \<in> set ?L" by (rule hd_in_set)
  from n2 have m2: "hd ?M \<in> set ?M" by (rule hd_in_set)
  from crs_is_not_validated [OF h, of example_env "PList [PObj ''P'']" "PInt 3" "PFloat float_one"
      "PStr ''float64''" PNone PNone "PStr ''HashPartitioner''" "''x''"
      "PRDD (RDD [ [PObj ''P''] ] [] False CtxSerializer)" "PStr ''int8''"]
  have "(\<forall>call \<in> set ?L. snd call ! 2 = Py PNone) \<and> (\<forall>call \<in> set ?M. snd call ! 1 = Py PNone)"
    by (simp only: l option.case) blast
  with m1 m2 have "snd (hd ?L) ! 2 = Py PNone" "snd (hd ?M) ! 1 = Py PNone"
    by blast+
  with h n1 n2 show ?thesis by blast
qed

text \<open>
  Claim C3 as stated fails on the code: with \<open>crs = None\<close> the call is dispatched, with
  \<open>None\<close> as its third argument, and the layer is returned.
\<close>

theorem crs_type_error_counterexample:
  "rasterize example_env (PList [PObj ''P'']) PNone (PInt 3) (PFloat float_one) (PStr ''float64'')
       PNone PNone (PStr ''HashPartitioner'')
     = ([(''rasterizeGeometry'',
          [JavaObject ''o17'', Py (PList [PBytes [80] ]), Py PNone, Py (PInt 3), Py (PFloat float_one),
           Py (PStr ''float64''), Py PNone, Py PNone, Py (PStr ''HashPartitioner'')])],
        Inr (TiledRasterLayer SPATIAL ''o42''))"
  by (simp add: rasterize_def dispatch_def Let_def example_env_simps label_bytes_simps)
     (simp add: example_env_def base_env_def)

text \<open>
  Claim C4, as amended.  For a distributed collection given to \<open>rasterize\<close>,
  \<open>num_partitions\<close> is passed on unchanged as an argument of the call, and the collection
  submitted has the partitions of the input: nothing is repartitioned before submission.
\<close>

theorem num_partitions_passed_through:
  assumes "enum_value (Partitioner env) partitioner = Inr p"
    and "py_float env fill_value = Inr fill"
    and "enum_value (CellType env) cell_type = Inr ct"
  shows "\<exists>wkb_rdd.
           fst (rasterize env (PRDD r) crs zoom fill_value cell_type options num_partitions
                  partitioner)
             = [(''rasterizeGeometry'',
                 [JavaRDD wkb_rdd, Py (coerce_crs crs), Py zoom, Py (PFloat fill), Py (PStr ct),
                  Py options, Py num_partitions, Py (PStr p)])]
           \<and> partitions wkb_rdd = partitions r
           \<and> getNumPartitions wkb_rdd = getNumPartitions r"
  using assms
  by (simp add: rasterize_def dispatch_def set_bypass_serializer_def Let_def getNumPartitions_def)

theorem num_partitions_passed_through_witness:
  "enum_value (Partitioner example_env) (PStr ''HashPartitioner'') = Inr ''HashPartitioner''
   \<and> py_float example_env (PFloat float_one) = Inr float_one
   \<and> enum_value (CellType example_env) (PStr ''float64'') = Inr ''float64''
   \<and> (\<exists>wkb_rdd.
         fst (rasterize example_env (PRDD (RDD [ [PObj ''P'', PObj ''Q''] ] [] False CtxSerializer))
                (PInt 4326) (PInt 3) (PFloat float_one) (PStr ''float64'') PNone (PInt 2)
                (PStr ''HashPartitioner''))
           = [(''rasterizeGeometry'',
               [JavaRDD wkb_rdd, Py (coerce_crs (PInt 4326)), Py (PInt 3), Py (PFloat float_one),
                Py (PStr ''float64''), Py PNone, Py (PInt 2), Py (PStr ''HashPartitioner'')])]
         \<and> partitions wkb_rdd = partitions (RDD [ [PObj ''P'', PObj ''Q''] ] [] False CtxSerializer)
         \<and> getNumPartitions wkb_rdd
             = getNumPartitions (RDD [ [PObj ''P'', PObj ''Q''] ] [] False CtxSerializer))"
proof -
  have h1: "enum_value (Partitioner example_env) (PStr ''HashPartitioner'') = Inr ''HashPartitioner''"
    by (simp add: example_env_simps)
  have h2: "py_float example_env (PFloat float_one) = Inr float_one"
    by (simp add: example_env_simps)
  have h3: "enum_value (CellType example_env) (PStr ''float64'') = Inr ''float64''"
    by (simp add: example_env_simps)
  show ?thesis
    by (intro conjI h1 h2 h3 num_partitions_passed_through [OF h1 h2 h3])
qed

text \<open>
  Claim C4 as stated fails on the code: with a collection of one partition and
  \<open>num_partitions = 2\<close>, the collection submitted has one partition.
\<close>

theorem repartition_before_submission_counterexample:
  "map submitted_rdd
     (fst (rasterize example_env (PRDD (RDD [ [PObj ''P'', PObj ''Q''] ] [] False CtxSerializer))
             (PInt 4326) (PInt 3) (PFloat float_one) (PStr ''float64'') PNone (PInt 2)
             (PStr ''HashPartitioner'')))
     = [Some (RDD [ [PObj ''P'', PObj ''Q''] ] [Lam_dumps] True CtxSerializer)]
   \<and> getNumPartitions (RDD [ [PObj ''P'', PObj ''Q''] ] [Lam_dumps] True CtxSerializer) = 1"
  by (simp add: rasterize_def dispatch_def set_bypass_serializer_def Let_def example_env_simps
        getNumPartitions_def)

text \<open>
  Claim C5.  With an integer \<open>crs\<close> both operations behave, on every input, as with the
  decimal string of that integer, so nothing after the first statement sees the integer;
  \<open>4326\<close> becomes \<open>'4326'\<close>, and the string of a natural number reads back as that
  number.  Every call dispatched carries, as its \<open>crs\<close> argument, the decimal string of an
  integer \<open>crs\<close> and a string \<open>crs\<close> as it was given; and when the payload and the other
  parameters are accepted, exactly one call is dispatched, carrying that string.
\<close>

theorem integer_crs_coerced_to_decimal_string:
  "rasterize env geoms (PInt n) zoom fill_value cell_type options num_partitions partitioner
     = rasterize env geoms (PStr (str_int n)) zoom fill_value cell_type options num_partitions
         partitioner
   \<and> rasterize_features env features (PInt n) zoom cell_type options num_partitions
         zindex_cell_type partitioner
     = rasterize_features env features (PStr (str_int n)) zoom cell_type options num_partitions
         zindex_cell_type partitioner
   \<and> coerce_crs (PInt n) = PStr (str_int n)
   \<and> coerce_crs (PStr s) = PStr s
   \<and> str_int 4326 = ''4326''
   \<and> decimal_value (str_int (int k)) = k
   \<and> (\<forall>call \<in> set (fst (rasterize env geoms (PInt n) zoom fill_value cell_type options
                            num_partitions partitioner)).
         snd call ! (case list_or_tuple geoms of None \<Rightarrow> 1 | Some gs \<Rightarrow> 2)
           = Py (PStr (str_int n)))
   \<and> (\<forall>call \<in> set (fst (rasterize env geoms (PStr s) zoom fill_value cell_type options
                            num_partitions partitioner)).
         snd call ! (case list_or_tuple geoms of None \<Rightarrow> 1 | Some gs \<Rightarrow> 2) = Py (PStr s))
   \<and> (\<forall>call \<in> set (fst (rasterize_features env features (PInt n) zoom cell_type options
                            num_partitions zindex_cell_type partitioner)).
         snd call ! 1 = Py (PStr (str_int n)))
   \<and> (\<forall>call \<in> set (fst (rasterize_features env features (PStr s) zoom cell_type options
                            num_partitions zindex_cell_type partitioner)).
         snd call ! 1 = Py (PStr s))
   \<and> (list_or_tuple geoms = Some gs \<and> \<not> isl (mapM (dumps env) gs)
        \<and> \<not> isl (enum_value (Partitioner env) partitioner) \<and> \<not> isl (py_float env fill_value)
        \<and> \<not> isl (enum_value (CellType env) cell_type) \<longrightarrow>
        map (\<lambda>call. snd call ! 2)
            (fst (rasterize env geoms (PInt n) zoom fill_value cell_type options num_partitions
                    partitioner)) = [Py (PStr (str_int n))]
        \<and> map (\<lambda>call. snd call ! 2)
            (fst (rasterize env geoms (PStr s) zoom fill_value cell_type options num_partitions
                    partitioner)) = [Py (PStr s)])
   \<and> (\<not> isl (enum_value (Partitioner env) partitioner) \<and> \<not> isl (py_float env fill_value)
        \<and> \<not> isl (enum_value (CellType env) cell_type) \<longrightarrow>
        map (\<lambda>call. snd call ! 1)
            (fst (rasterize env (PRDD r) (PInt n) zoom fill_value cell_type options
                    num_partitions partitioner)) = [Py (PStr (str_int n))]
        \<and> map (\<lambda>call. snd call ! 1)
            (fst (rasterize env (PRDD r) (PStr s) zoom fill_value cell_type options
                    num_partitions partitioner)) = [Py (PStr s)])
   \<and> (\<not> isl (enum_value (Partitioner env) partitioner)
        \<and> \<not> isl (enum_value (CellType env) cell_type)
        \<and> \<not> isl (enum_value (CellType env) zindex_cell_type) \<longrightarrow>
        map (\<lambda>call. snd call ! 1)
            (fst (rasterize_features env (PRDD r) (PInt n) zoom cell_type options num_partitions
                    zindex_cell_type partitioner)) = [Py (PStr (str_int n))]
        \<and> map (\<lambda>call. snd call ! 1)
            (fst (rasterize_features env (PRDD r) (PStr s) zoom cell_type options num_partitions
                    zindex_cell_type partitioner)) = [Py (PStr s)])"
proof (intro conjI)
  show "rasterize env geoms (PInt n) zoom fill_value cell_type options num_partitions partitioner
     = rasterize env geoms (PStr (str_int n)) zoom fill_value cell_type options num_partitions
         partitioner"
    by (simp add: rasterize_def)
  show "rasterize_features env features (PInt n) zoom cell_type options num_partitions
         zindex_cell_type partitioner
     = rasterize_features env features (PStr (str_int n)) zoom cell_type options num_partitions
         zindex_cell_type partitioner"
    by (simp add: rasterize_features_def)
  show "coerce_crs (PInt n) = PStr (str_int n)" by simp
  show "coerce_crs (PStr s) = PStr s" by simp
  show "str_int 4326 = ''4326''"
    by (simp add: str_int_def digits.simps digit_char_def)
  show "decimal_value (str_int (int k)) = k"
    by (simp add: str_int_def decimal_value_digits)
  show "\<forall>call \<in> set (fst (rasterize env geoms (PInt n) zoom fill_value cell_type options
                            num_partitions partitioner)).
         snd call ! (case list_or_tuple geoms of None \<Rightarrow> 1 | Some gs \<Rightarrow> 2)
           = Py (PStr (str_int n))"
    by (simp add: rasterize_def dispatch_def Let_def split: sum.splits option.splits)
  show "\<forall>call \<in> set (fst (rasterize env geoms (PStr s) zoom fill_value cell_type options
                            num_partitions partitioner)).
         snd call ! (case list_or_tuple geoms of None \<Rightarrow> 1 | Some gs \<Rightarrow> 2) = Py (PStr s)"
    by (simp add: rasterize_def dispatch_def Let_def split: sum.splits option.splits)
  show "\<forall>call \<in> set (fst (rasterize_features env features (PInt n) zoom cell_type options
                            num_partitions zindex_cell_type partitioner)).
         snd call ! 1 = Py (PStr (str_int n))"
    by (simp add: rasterize_features_def dispatch_def Let_def split: sum.splits)
  show "\<forall>call \<in> set (fst (rasterize_features env features (PStr s) zoom cell_type options
                            num_partitions zindex_cell_type partitioner)).
         snd call ! 1 = Py (PStr s)"
    by (simp add: rasterize_features_def dispatch_def Let_def split: sum.splits)
  show "list_or_tuple geoms = Some gs \<and> \<not> isl (mapM (dumps env) gs)
        \<and> \<not> isl (enum_value (Partitioner env) partitioner) \<and> \<not> isl (py_float env fill_value)
        \<and> \<not> isl (enum_value (CellType env) cell_type) \<longrightarrow>
        map (\<lambda>call. snd call ! 2)
            (fst (rasterize env geoms (PInt n) zoom fill_value cell_type options num_partitions
                    partitioner)) = [Py (PStr (str_int n))]
        \<and> map (\<lambda>call. snd call ! 2)
            (fst (rasterize env geoms (PStr s) zoom fill_value cell_type options num_partitions
                    partitioner)) = [Py (PStr s)]"
    by (auto simp: rasterize_def dispatch_def Let_def isl_def split: sum.splits)
  show "\<not> isl (enum_value (Partitioner env) partitioner) \<and> \<not> isl (py_float env fill_value)
        \<and> \<not> isl (enum_value (CellType env) cell_type) \<longrightarrow>
        map (\<lambda>call. snd call ! 1)
            (fst (rasterize env (PRDD r) (PInt n) zoom fill_value cell_type options
                    num_partitions partitioner)) = [Py (PStr (str_int n))]
        \<and> map (\<lambda>call. snd call ! 1)
            (fst (rasterize env (PRDD r) (PStr s) zoom fill_value cell_type options
                    num_partitions partitioner)) = [Py (PStr s)]"
    by (auto simp: rasterize_def dispatch_def Let_def isl_def split: sum.splits)
  show "\<not> isl (enum_value (Partitioner env) partitioner)
        \<and> \<not> isl (enum_value (CellType env) cell_type)
        \<and> \<not> isl (enum_value (CellType env) zindex_cell_type) \<longrightarrow>
        map (\<lambda>call. snd call ! 1)
            (fst (rasterize_features env (PRDD r) (PInt n) zoom cell_type options num_partitions
                    zindex_cell_type partitioner)) = [Py (PStr (str_int n))]
        \<and> map (\<lambda>call. snd call ! 1)
            (fst (rasterize_features env (PRDD r) (PStr s) zoom cell_type options num_partitions
                    zindex_cell_type partitioner)) = [Py (PStr s)]"
    by (auto simp: rasterize_features_def dispatch_def Let_def isl_def split: sum.splits)
qed

theorem integer_crs_coerced_to_decimal_string_witness:
  "list_or_tuple (PList [PObj ''P'']) = Some [PObj ''P'']
   \<and> \<not> isl (mapM (dumps example_env) [PObj ''P''])
   \<and> \<not> isl (enum_value (Partitioner example_env) (PStr ''HashPartitioner''))
   \<and> \<not> isl (py_float example_env (PFloat float_one))
   \<and> \<not> isl (enum_value (CellType example_env) (PStr ''float64''))
   \<and> \<not> isl (enum_value (CellType example_env) (PStr ''int8''))
   \<and> map (\<lambda>call. snd call ! 2)
        (fst (rasterize example_env (PList [PObj ''P'']) (PInt 4326) (PInt 3) (PFloat float_one)
                (PStr ''float64'') PNone PNone (PStr ''HashPartitioner'')))
       = [Py (PStr ''4326'')]
   \<and> map (\<lambda>call. snd call ! 2)
        (fst (rasterize example_env (PList [PObj ''P'']) (PStr ''4326'') (PInt 3)
                (PFloat float_one) (PStr ''float64'') PNone PNone (PStr ''HashPartitioner'')))
       = [Py (PStr ''4326'')]
   \<and> map (\<lambda>call. snd call ! 1)
        (fst (rasterize example_env (PRDD (RDD [ [PObj ''P''] ] [] False CtxSerializer))
                (PInt 4326) (PInt 3) (PFloat float_one) (PStr ''float64'') PNone PNone
                (PStr ''HashPartitioner'')))
       = [Py (PStr ''4326'')]
   \<and> map (\<lambda>call. snd call ! 1)
        (fst (rasterize_features example_env (PRDD (RDD [ [PObj ''P''] ] [] False CtxSerializer))
                (PInt 4326) (PInt 3) (PStr ''float64'') PNone PNone (PStr ''int8'')
                (PStr ''HashPartitioner'')))
       = [Py (PStr ''4326'')]
   \<and> map (\<lambda>call. snd call ! 1)
        (fst (rasterize_features example_env (PRDD (RDD [ [PObj ''P''] ] [] False CtxSerializer))
                (PStr ''EPSG:3857'') (PInt 3) (PStr ''float64'') PNone PNone (PStr ''int8'')
                (PStr ''HashPartitioner'')))
       = [Py (PStr ''EPSG:3857'')]"
proof -
  have h1: "list_or_tuple (PList [PObj ''P'']) = Some [PObj ''P'']" by simp
  have h2: "\<not> isl (mapM (dumps example_env) [PObj ''P''])"
    by (simp add: example_env_simps label_bytes_simps)
  have h3: "\<not> isl (enum_value (Partitioner example_env) (PStr ''HashPartitioner''))"
    by (simp add: example_env_simps)
  have h4: "\<not> isl (py_float example_env (PFloat float_one))"
    by (simp add: example_env_simps)
  have h5: "\<not> isl (enum_value (CellType example_env) (PStr ''float64''))"
    by (simp add: example_env_simps)
  have h6: "\<not> isl (enum_value (CellType example_env) (PStr ''int8''))"
    by (simp add: example_env_simps)
  note a = integer_crs_coerced_to_decimal_string
         [of example_env "PList [PObj ''P'']" 4326 "PInt 3" "PFloat float_one"
             "PStr ''float64''" PNone PNone "PStr ''HashPartitioner''"
             "PRDD (RDD [ [PObj ''P''] ] [] False CtxSerializer)" "PStr ''int8''"
             "''4326''" 0 "[PObj ''P'']" "RDD [ [PObj ''P''] ] [] False CtxSerializer"]
  note b = integer_crs_coerced_to_decimal_string
         [of example_env "PList [PObj ''P'']" 4326 "PInt 3" "PFloat float_one"
             "PStr ''float64''" PNone PNone "PStr ''HashPartitioner''"
             "PRDD (RDD [ [PObj ''P''] ] [] False CtxSerializer)" "PStr ''int8''"
             "''EPSG:3857''" 0 "[PObj ''P'']" "RDD [ [PObj ''P''] ] [] False CtxSerializer"]
  have v: "str_int 4326 = ''4326''" using a by blast
  from a h1 h2 h3 h4 h5 h6 have
    "map (\<lambda>call. snd call ! 2)
        (fst (rasterize example_env (PList [PObj ''P'']) (PInt 4326) (PInt 3) (PFloat float_one)
                (PStr ''float64'') PNone PNone (PStr ''HashPartitioner'')))
       = [Py (PStr (str_int 4326))]"
    "map (\<lambda>call. snd call ! 2)
        (fst (rasterize example_env (PList [PObj ''P'']) (PStr ''4326'') (PInt 3)
                (PFloat float_one) (PStr ''float64'') PNone PNone (PStr ''HashPartitioner'')))
       = [Py (PStr ''4326'')]"
    "map (\<lambda>call. snd call ! 1)
        (fst (rasterize example_env (PRDD (RDD [ [PObj ''P''] ] [] False CtxSerializer))
                (PInt 4326) (PInt 3) (PFloat float_one) (PStr ''float64'') PNone PNone
                (PStr ''HashPartitioner'')))
       = [Py (PStr (str_int 4326))]"
    "map (\<lambda>call. snd call ! 1)
        (fst (rasterize_features example_env (PRDD (RDD [ [PObj ''P''] ] [] False CtxSerializer))
                (PInt 4326) (PInt 3) (PStr ''float64'') PNone PNone (PStr ''int8'')
                (PStr ''HashPartitioner'')))
       = [Py (PStr (str_int 4326))]"
    by blast+
  moreover from b h3 h5 h6 have
    "map (\<lambda>call. snd call ! 1)
        (fst (rasterize_features example_env (PRDD (RDD [ [PObj ''P''] ] [] False CtxSerializer))
                (PStr ''EPSG:3857'') (PInt 3) (PStr ''float64'') PNone PNone (PStr ''int8'')
                (PStr ''HashPartitioner'')))
       = [Py (PStr ''EPSG:3857'')]"
    by blast
  ultimately show ?thesis using h1 h2 h3 h4 h5 h6 unfolding v by blast
qed

text \<open>
  Claim C6.  The value of a member, as a string, and the member itself both resolve to
  that value; a string that is the value of no member raises \<open>ValueError\<close>.  In
  \<open>rasterize\<close> and \<open>rasterize_features\<close>, an unrecognised \<open>partitioner\<close>, \<open>cell_type\<close> or
  \<open>zindex_cell_type\<close> ends the operation with an error and no call dispatched; and every
  call dispatched carries, at the positions of the cell types and of the partitioner, the
  resolved values.
\<close>

theorem enum_spellings_resolved_before_call:
  "((n, v) \<in> set (members E) \<longrightarrow>
       enum_value E (PStr v) = Inr v \<and> enum_value E (PEnum (cls_name E) n v) = Inr v)
   \<and> (s \<notin> snd ` set (members E) \<longrightarrow> enum_value E (PStr s) = Inl ValueError)
   \<and> (isl (enum_value (Partitioner env) partitioner) \<or> isl (enum_value (CellType env) cell_type)
        \<longrightarrow> fst (rasterize env geoms crs zoom fill_value cell_type options num_partitions
                   partitioner) = []
          \<and> isl (snd (rasterize env geoms crs zoom fill_value cell_type options num_partitions
                        partitioner)))
   \<and> (isl (enum_value (Partitioner env) partitioner) \<or> isl (enum_value (CellType env) cell_type)
        \<or> isl (enum_value (CellType env) zindex_cell_type)
        \<longrightarrow> fst (rasterize_features env features crs zoom cell_type options num_partitions
                   zindex_cell_type partitioner) = []
          \<and> isl (snd (rasterize_features env features crs zoom cell_type options num_partitions
                        zindex_cell_type partitioner)))
   \<and> (\<forall>call \<in> set (fst (rasterize env geoms crs zoom fill_value cell_type options
                            num_partitions partitioner)).
         enum_value (CellType env) cell_type
           = Inr (projr (enum_value (CellType env) cell_type))
         \<and> enum_value (Partitioner env) partitioner
           = Inr (projr (enum_value (Partitioner env) partitioner))
         \<and> snd call ! (case list_or_tuple geoms of None \<Rightarrow> 4 | Some gs \<Rightarrow> 5)
             = Py (PStr (projr (enum_value (CellType env) cell_type)))
         \<and> snd call ! (case list_or_tuple geoms of None \<Rightarrow> 7 | Some gs \<Rightarrow> 8)
             = Py (PStr (projr (enum_value (Partitioner env) partitioner))))
   \<and> (\<forall>call \<in> set (fst (rasterize_features env features crs zoom cell_type options
                            num_partitions zindex_cell_type partitioner)).
         enum_value (CellType env) cell_type
           = Inr (projr (enum_value (CellType env) cell_type))
         \<and> enum_value (CellType env) zindex_cell_type
           = Inr (projr (enum_value (CellType env) zindex_cell_type))
         \<and> enum_value (Partitioner env) partitioner
           = Inr (projr (enum_value (Partitioner env) partitioner))
         \<and> snd call ! 3 = Py (PStr (projr (enum_value (CellType env) cell_type)))
         \<and> snd call ! 6 = Py (PStr (projr (enum_value (CellType env) zindex_cell_type)))
         \<and> snd call ! 7 = Py (PStr (projr (enum_value (Partitioner env) partitioner))))"
proof (intro conjI)
  show "(n, v) \<in> set (members E) \<longrightarrow>
       enum_value E (PStr v) = Inr v \<and> enum_value E (PEnum (cls_name E) n v) = Inr v"
    by (simp add: enum_value_member)
  show "s \<notin> snd ` set (members E) \<longrightarrow> enum_value E (PStr s) = Inl ValueError"
    by (simp add: enum_value_unknown_string)
  show "isl (enum_value (Partitioner env) partitioner) \<or> isl (enum_value (CellType env) cell_type)
        \<longrightarrow> fst (rasterize env geoms crs zoom fill_value cell_type options num_partitions
                   partitioner) = []
          \<and> isl (snd (rasterize env geoms crs zoom fill_value cell_type options num_partitions
                        partitioner))"
    by (auto simp: rasterize_def Let_def isl_def split: sum.splits option.splits)
  show "isl (enum_value (Partitioner env) partitioner) \<or> isl (enum_value (CellType env) cell_type)
        \<or> isl (enum_value (CellType env) zindex_cell_type)
        \<longrightarrow> fst (rasterize_features env features crs zoom cell_type options num_partitions
                   zindex_cell_type partitioner) = []
          \<and> isl (snd (rasterize_features env features crs zoom cell_type options num_partitions
                        zindex_cell_type partitioner))"
    by (auto simp: rasterize_features_def Let_def isl_def split: sum.splits)
  show "\<forall>call \<in> set (fst (rasterize env geoms crs zoom fill_value cell_type options
                            num_partitions partitioner)).
         enum_value (CellType env) cell_type
           = Inr (projr (enum_value (CellType env) cell_type))
         \<and> enum_value (Partitioner env) partitioner
           = Inr (projr (enum_value (Partitioner env) partitioner))
         \<and> snd call ! (case list_or_tuple geoms of None \<Rightarrow> 4 | Some gs \<Rightarrow> 5)
             = Py (PStr (projr (enum_value (CellType env) cell_type)))
         \<and> snd call ! (case list_or_tuple geoms of None \<Rightarrow> 7 | Some gs \<Rightarrow> 8)
             = Py (PStr (projr (enum_value (Partitioner env) partitioner)))"
    by (simp add: rasterize_def dispatch_def Let_def split: sum.splits option.splits)
  show "\<forall>call \<in> set (fst (rasterize_features env features crs zoom cell_type options
                            num_partitions zindex_cell_type partitioner)).
         enum_value (CellType env) cell_type
           = Inr (projr (enum_value (CellType env) cell_type))
         \<and> enum_value (CellType env) zindex_cell_type
           = Inr (projr (enum_value (CellType env) zindex_cell_type))
         \<and> enum_value (Partitioner env) partitioner
           = Inr (projr (enum_value (Partitioner env) partitioner))
         \<and> snd call ! 3 = Py (PStr (projr (enum_value (CellType env) cell_type)))
         \<and> snd call ! 6 = Py (PStr (projr (enum_value (CellType env) zindex_cell_type)))
         \<and> snd call ! 7 = Py (PStr (projr (enum_value (Partitioner env) partitioner)))"
    by (simp add: rasterize_features_def dispatch_def Let_def split: sum.splits)
qed

theorem enum_spellings_resolved_before_call_witness:
  "(''FLOAT64'', ''float64'') \<in> set (members (CellType example_env))
   \<and> enum_value (CellType example_env) (PStr ''float64'') = Inr ''float64''
   \<and> enum_value (CellType example_env)
        (PEnum (cls_name (CellType example_env)) ''FLOAT64'' ''float64'') = Inr ''float64''
   \<and> ''float128'' \<notin> snd ` set (members (CellType example_env))
   \<and> enum_value (CellType example_env) (PStr ''float128'') = Inl ValueError
   \<and> isl (enum_value (CellType example_env) (PStr ''float128''))
   \<and> fst (rasterize example_env (PList [PObj ''P'']) (PInt 4326) (PInt 3) (PFloat float_one)
            (PStr ''float128'') PNone PNone (PStr ''HashPartitioner'')) = []
   \<and> isl (snd (rasterize example_env (PList [PObj ''P'']) (PInt 4326) (PInt 3) (PFloat float_one)
                 (PStr ''float128'') PNone PNone (PStr ''HashPartitioner'')))
   \<and> fst (rasterize_features example_env (PRDD (RDD [ [PObj ''P''] ] [] False CtxSerializer))
            (PInt 4326) (PInt 3) (PStr ''float128'') PNone PNone (PStr ''int8'')
            (PStr ''HashPartitioner'')) = []
   \<and> isl (snd (rasterize_features example_env (PRDD (RDD [ [PObj ''P''] ] [] False CtxSerializer))
                 (PInt 4326) (PInt 3) (PStr ''float128'') PNone PNone (PStr ''int8'')
                 (PStr ''HashPartitioner'')))
   \<and> fst (rasterize example_env (PList [PObj ''P'']) (PInt 4326) (PInt 3) (PFloat float_one)
          (PEnum ''CellType'' ''FLOAT64'' ''float64'') PNone PNone (PStr ''HashPartitioner''))
       \<noteq> []
   \<and> snd (hd (fst (rasterize example_env (PList [PObj ''P'']) (PInt 4326) (PInt 3)
                     (PFloat float_one) (PEnum ''CellType'' ''FLOAT64'' ''float64'') PNone PNone
                     (PStr ''HashPartitioner'')))) ! 5 = Py (PStr ''float64'')
   \<and> snd (hd (fst (rasterize example_env (PList [PObj ''P'']) (PInt 4326) (PInt 3)
                     (PFloat float_one) (PEnum ''CellType'' ''FLOAT64'' ''float64'') PNone PNone
                     (PStr ''HashPartitioner'')))) ! 8 = Py (PStr ''HashPartitioner'')
   \<and> fst (rasterize_features example_env (PRDD (RDD [ [PObj ''P''] ] [] False CtxSerializer))
            (PInt 4326) (PInt 3) (PEnum ''CellType'' ''FLOAT64'' ''float64'') PNone PNone
            (PStr ''int8'') (PStr ''HashPartitioner'')) \<noteq> []
   \<and> snd (hd (fst (rasterize_features example_env
                     (PRDD (RDD [ [PObj ''P''] ] [] False CtxSerializer))
                     (PInt 4326) (PInt 3) (PEnum ''CellType'' ''FLOAT64'' ''float64'')
                     PNone PNone (PStr ''int8'') (PStr ''HashPartitioner'')))) ! 3
       = Py (PStr ''float64'')
   \<and> snd (hd (fst (rasterize_features example_env
                     (PRDD (RDD [ [PObj ''P''] ] [] False CtxSerializer))
                     (PInt 4326) (PInt 3) (PEnum ''CellType'' ''FLOAT64'' ''float64'')
                     PNone PNone (PStr ''int8'') (PStr ''HashPartitioner'')))) ! 6
       = Py (PStr ''int8'')
   \<and> snd (hd (fst (rasterize_features example_env
                     (PRDD (RDD [ [PObj ''P''] ] [] False CtxSerializer))
                     (PInt 4326) (PInt 3) (PEnum ''CellType'' ''FLOAT64'' ''float64'')
                     PNone PNone (PStr ''int8'') (PStr ''HashPartitioner'')))) ! 7
       = Py (PStr ''HashPartitioner'')"
proof -
  let ?L = "fst (rasterize example_env (PList [PObj ''P'']) (PInt 4326) (PInt 3) (PFloat float_one)
          (PEnum ''CellType'' ''FLOAT64'' ''float64'') PNone PNone (PStr ''HashPartitioner''))"
  let ?M = "fst (rasterize_features example_env (PRDD (RDD [ [PObj ''P''] ] [] False CtxSerializer))
            (PInt 4326) (PInt 3) (PEnum ''CellType'' ''FLOAT64'' ''float64'') PNone PNone
            (PStr ''int8'') (PStr ''HashPartitioner''))"
  have h1: "(''FLOAT64'', ''float64'') \<in> set (members (CellType example_env))"
    by (simp add: example_env_def base_env_def)
  have h2: "''float128'' \<notin> snd ` set (members (CellType example_env))"
    by (simp add: example_env_def base_env_def)
  have h3: "isl (enum_value (CellType example_env) (PStr ''float128''))"
    by (simp add: example_env_def base_env_def enum_value_def)
  have c: "enum_value (CellType example_env) (PEnum ''CellType'' ''FLOAT64'' ''float64'')
             = Inr ''float64''"
    by (simp add: example_env_def base_env_def enum_value_def)
  have n1: "fst (rasterize example_env (PList [PObj ''P'']) (PInt 4326) (PInt 3) (PFloat float_one)
          (PEnum ''CellType'' ''FLOAT64'' ''float64'') PNone PNone (PStr ''HashPartitioner''))
     \<noteq> []"
    by (simp add: rasterize_def dispatch_def Let_def example_env_simps label_bytes_simps c)
  have n2: "fst (rasterize_features example_env (PRDD (RDD [ [PObj ''P''] ] [] False CtxSerializer))
            (PInt 4326) (PInt 3) (PEnum ''CellType'' ''FLOAT64'' ''float64'') PNone PNone
            (PStr ''int8'') (PStr ''HashPartitioner'')) \<noteq> []"
    by (simp add: rasterize_features_def dispatch_def Let_def example_env_simps c)
  have part1:
    "enum_value (CellType example_env) (PStr ''float64'') = Inr ''float64''
     \<and> enum_value (CellType example_env)
          (PEnum (cls_name (CellType example_env)) ''FLOAT64'' ''float64'') = Inr ''float64''
     \<and> enum_value (CellType example_env) (PStr ''float128'') = Inl ValueError
     \<and> fst (rasterize example_env (PList [PObj ''P'']) (PInt 4326) (PInt 3) (PFloat float_one)
            (PStr ''float128'') PNone PNone (PStr ''HashPartitioner'')) = []
     \<and> isl (snd (rasterize example_env (PList [PObj ''P'']) (PInt 4326) (PInt 3) (PFloat float_one)
                 (PStr ''float128'') PNone PNone (PStr ''HashPartitioner'')))
     \<and> fst (rasterize_features example_env (PRDD (RDD [ [PObj ''P''] ] [] False CtxSerializer))
            (PInt 4326) (PInt 3) (PStr ''float128'') PNone PNone (PStr ''int8'')
            (PStr ''HashPartitioner'')) = []
     \<and> isl (snd (rasterize_features example_env (PRDD (RDD [ [PObj ''P''] ] [] False CtxSerializer))
                 (PInt 4326) (PInt 3) (PStr ''float128'') PNone PNone (PStr ''int8'')
                 (PStr ''HashPartitioner'')))"
    using enum_spellings_resolved_before_call
         [of "''FLOAT64''" "''float64''" "CellType example_env" "''float128''" example_env
             "PStr ''HashPartitioner''" "PStr ''float128''" "PList [PObj ''P'']" "PInt 4326"
             "PInt 3" "PFloat float_one" PNone PNone "PStr ''int8''"
             "PRDD (RDD [ [PObj ''P''] ] [] False CtxSerializer)"]
      h1 h2 h3 by simp
  have part2:
    "(\<forall>call \<in> set (fst (rasterize example_env (PList [PObj ''P'']) (PInt 4326) (PInt 3)
                            (PFloat float_one) (PEnum ''CellType'' ''FLOAT64'' ''float64'') PNone PNone
                            (PStr ''HashPartitioner''))).
         snd call ! 5 = Py (PStr ''float64'') \<and> snd call ! 8 = Py (PStr ''HashPartitioner''))
     \<and> (\<forall>call \<in> set (fst (rasterize_features example_env
                            (PRDD (RDD [ [PObj ''P''] ] [] False CtxSerializer))
                            (PInt 4326) (PInt 3) (PEnum ''CellType'' ''FLOAT64'' ''float64'')
                            PNone PNone (PStr ''int8'') (PStr ''HashPartitioner''))).
         snd call ! 3 = Py (PStr ''float64'') \<and> snd call ! 6 = Py (PStr ''int8'')
         \<and> snd call ! 7 = Py (PStr ''HashPartitioner''))"
    using enum_spellings_resolved_before_call
         [of "''FLOAT64''" "''float64''" "CellType example_env" "''float128''" example_env
             "PStr ''HashPartitioner''" "PEnum ''CellType'' ''FLOAT64'' ''float64''"
             "PList [PObj ''P'']" "PInt 4326"
             "PInt 3" "PFloat float_one" PNone PNone "PStr ''int8''"
             "PRDD (RDD [ [PObj ''P''] ] [] False CtxSerializer)"]
      c by (simp add: example_env_simps)
  from n1 have m1: "hd ?L \<in> set ?L" by (rule hd_in_set)
  from n2 have m2: "hd ?M \<in> set ?M" by (rule hd_in_set)
  from part2 m1 m2 have part3:
    "snd (hd ?L) ! 5 = Py (PStr ''float64'')" "snd (hd ?L) ! 8 = Py (PStr ''HashPartitioner'')"
    "snd (hd ?M) ! 3 = Py (PStr ''float64'')" "snd (hd ?M) ! 6 = Py (PStr ''int8'')"
    "snd (hd ?M) ! 7 = Py (PStr ''HashPartitioner'')"
    by blast+
  show ?thesis using h1 h2 h3 n1 n2 part1 part3 by blast
qed

text \<open>
  Claim C7.  For a list or tuple of geometries that all encode, with parameters that
  normalise and an engine that answers with a handle: every geometry is encoded by its own
  call of \<open>dumps\<close>, in order; one call \<open>rasterizeGeometry\<close> is dispatched with the
  arguments (context, byte strings, crs, zoom, fill value as a float, cell-type value,
  options, num_partitions, partitioner value); and the handle is returned wrapped as a
  spatial layer.
\<close>

theorem rasterize_sequence_submits_wkb_list:
  assumes "list_or_tuple geoms = Some gs"
    and "mapM (dumps env) gs = Inr wkb_geoms"
    and "enum_value (Partitioner env) partitioner = Inr p"
    and "py_float env fill_value = Inr fill"
    and "enum_value (CellType env) cell_type = Inr ct"
    and "jvm env (''rasterizeGeometry'',
                  [JavaObject (sc env), Py (PList (map PBytes wkb_geoms)), Py (coerce_crs crs),
                   Py zoom, Py (PFloat fill), Py (PStr ct), Py options, Py num_partitions,
                   Py (PStr p)]) = Inr srdd"
  shows "rasterize env geoms crs zoom fill_value cell_type options num_partitions partitioner
           = ([(''rasterizeGeometry'',
                [JavaObject (sc env), Py (PList (map PBytes wkb_geoms)), Py (coerce_crs crs),
                 Py zoom, Py (PFloat fill), Py (PStr ct), Py options, Py num_partitions,
                 Py (PStr p)])],
              Inr (TiledRasterLayer SPATIAL srdd))
         \<and> list_all2 (\<lambda>g b. dumps env g = Inr b) gs wkb_geoms"
proof
  show "rasterize env geoms crs zoom fill_value cell_type options num_partitions partitioner
           = ([(''rasterizeGeometry'',
                [JavaObject (sc env), Py (PList (map PBytes wkb_geoms)), Py (coerce_crs crs),
                 Py zoom, Py (PFloat fill), Py (PStr ct), Py options, Py num_partitions,
                 Py (PStr p)])],
              Inr (TiledRasterLayer SPATIAL srdd))"
    using assms by (simp add: rasterize_def dispatch_def Let_def)
  show "list_all2 (\<lambda>g b. dumps env g = Inr b) gs wkb_geoms"
    using assms(2) by (rule mapM_Inr_list_all2)
qed

theorem rasterize_sequence_submits_wkb_list_witness:
  "list_or_tuple (PTuple [PObj ''P'', PObj ''Q'']) = Some [PObj ''P'', PObj ''Q'']
   \<and> mapM (dumps example_env) [PObj ''P'', PObj ''Q''] = Inr [ [80], [81] ]
   \<and> enum_value (Partitioner example_env) (PStr ''HashPartitioner'') = Inr ''HashPartitioner''
   \<and> py_float example_env (PFloat float_one) = Inr float_one
   \<and> enum_value (CellType example_env) (PStr ''float64'') = Inr ''float64''
   \<and> jvm example_env
        (''rasterizeGeometry'',
         [JavaObject (sc example_env), Py (PList (map PBytes [ [80], [81] ])),
          Py (coerce_crs (PInt 4326)), Py (PInt 3), Py (PFloat float_one), Py (PStr ''float64''),
          Py PNone, Py PNone, Py (PStr ''HashPartitioner'')]) = Inr ''o42''
   \<and> rasterize example_env (PTuple [PObj ''P'', PObj ''Q'']) (PInt 4326) (PInt 3) (PFloat float_one)
        (PStr ''float64'') PNone PNone (PStr ''HashPartitioner'')
       = ([(''rasterizeGeometry'',
            [JavaObject (sc example_env), Py (PList (map PBytes [ [80], [81] ])),
             Py (coerce_crs (PInt 4326)), Py (PInt 3), Py (PFloat float_one), Py (PStr ''float64''),
             Py PNone, Py PNone, Py (PStr ''HashPartitioner'')])],
          Inr (TiledRasterLayer SPATIAL ''o42''))
   \<and> list_all2 (\<lambda>g b. dumps example_env g = Inr b) [PObj ''P'', PObj ''Q''] [ [80], [81] ]"
proof -
  have h1: "list_or_tuple (PTuple [PObj ''P'', PObj ''Q'']) = Some [PObj ''P'', PObj ''Q'']"
    by simp
  have h2: "mapM (dumps example_env) [PObj ''P'', PObj ''Q''] = Inr [ [80], [81] ]"
    by (simp add: example_env_simps label_bytes_simps)
  have h3: "enum_value (Partitioner example_env) (PStr ''HashPartitioner'') = Inr ''HashPartitioner''"
    by (simp add: example_env_simps)
  have h4: "py_float example_env (PFloat float_one) = Inr float_one"
    by (simp add: example_env_simps)
  have h5: "enum_value (CellType example_env) (PStr ''float64'') = Inr ''float64''"
    by (simp add: example_env_simps)
  have h6: "jvm example_env
        (''rasterizeGeometry'',
         [JavaObject (sc example_env), Py (PList (map PBytes [ [80], [81] ])),
          Py (coerce_crs (PInt 4326)), Py (PInt 3), Py (PFloat float_one), Py (PStr ''float64''),
          Py PNone, Py PNone, Py (PStr ''HashPartitioner'')]) = Inr ''o42''"
    by (simp add: example_env_def)
  from rasterize_sequence_submits_wkb_list [OF h1 h2 h3 h4 h5 h6]
  show ?thesis using h1 h2 h3 h4 h5 h6 by blast
qed

text \<open>
  Claim C8.  The collection \<open>rasterize\<close> submits has the partitions of the input, and when it
  computes, the input computes too and the results correspond partition by partition and
  element by element, each result being the encoding of the element at the same place: the
  same number of partitions, the same number of elements in each, the same order.  The
  collection \<open>rasterize_features\<close> submits has the partitions of the input and computes
  exactly what the input computes.
\<close>

theorem per_element_map_keeps_order_and_partitions:
  "(call \<in> set (fst (rasterize env (PRDD r) crs zoom fill_value cell_type options
                        num_partitions partitioner))
      \<and> submitted_rdd call = Some wkb_rdd \<and> rdd_compute env wkb_rdd = Inr yss
    \<longrightarrow> partitions wkb_rdd = partitions r
        \<and> (\<exists>xss. rdd_compute env r = Inr xss
              \<and> list_all2 (list_all2 (\<lambda>x y. \<exists>w. dumps env x = Inr w \<and> y = PBytes w)) xss yss
              \<and> length yss = length xss
              \<and> map length yss = map length xss))
   \<and> (call' \<in> set (fst (rasterize_features env (PRDD r) crs zoom cell_type options
                           num_partitions zindex_cell_type partitioner))
      \<and> submitted_rdd call' = Some reserialized_rdd
    \<longrightarrow> partitions reserialized_rdd = partitions r
        \<and> rdd_compute env reserialized_rdd = rdd_compute env r)"
proof (intro conjI impI)
  assume a: "call \<in> set (fst (rasterize env (PRDD r) crs zoom fill_value cell_type options
                        num_partitions partitioner))
      \<and> submitted_rdd call = Some wkb_rdd \<and> rdd_compute env wkb_rdd = Inr yss"
  then have w: "wkb_rdd = RDD (partitions r) (func r @ [Lam_dumps]) True CtxSerializer"
    by (auto simp: rasterize_def dispatch_def set_bypass_serializer_def Let_def
             split: sum.splits)
  then show "partitions wkb_rdd = partitions r" by simp
  from a w have "rdd_compute env (RDD (partitions r) (func r @ [Lam_dumps]) True CtxSerializer)
                   = Inr yss" by simp
  from rdd_compute_mapped_dumps [OF this] obtain xss where
    xss: "rdd_compute env r = Inr xss"
      "list_all2 (list_all2 (\<lambda>x y. \<exists>w. dumps env x = Inr w \<and> y = PBytes w)) xss yss"
    by blast
  from xss(2) have "length yss = length xss" "map length yss = map length xss"
    by (simp_all add: list_all2_lengthD list_all2_lengths)
  with xss show "\<exists>xss. rdd_compute env r = Inr xss
              \<and> list_all2 (list_all2 (\<lambda>x y. \<exists>w. dumps env x = Inr w \<and> y = PBytes w)) xss yss
              \<and> length yss = length xss
              \<and> map length yss = map length xss"
    by blast
next
  assume a: "call' \<in> set (fst (rasterize_features env (PRDD r) crs zoom cell_type options
                           num_partitions zindex_cell_type partitioner))
      \<and> submitted_rdd call' = Some reserialized_rdd"
  then have w: "reserialized_rdd = r
        \<or> reserialized_rdd = RDD (partitions r) (func r @ [Lam_identity]) False
              (ProtoBufSerializer feature_cellvalue_decoder feature_cellvalue_encoder)"
    by (auto simp: rasterize_features_def dispatch_def Let_def split: sum.splits if_splits)
  then show "partitions reserialized_rdd = partitions r" by auto
  from w show "rdd_compute env reserialized_rdd = rdd_compute env r"
    by (auto simp: rdd_compute_reserialized)
qed

theorem per_element_map_keeps_order_and_partitions_witness:
  "(''rasterizeGeometry'',
      [JavaRDD (RDD [ [PObj ''P''], [PObj ''Q''] ] [Lam_dumps] True CtxSerializer),
       Py (PStr ''4326''), Py (PInt 3), Py (PFloat float_one), Py (PStr ''float64''), Py PNone, Py PNone,
       Py (PStr ''HashPartitioner'')])
     \<in> set (fst (rasterize example_env
                   (PRDD (RDD [ [PObj ''P''], [PObj ''Q''] ] [] False CtxSerializer))
                   (PStr ''4326'') (PInt 3) (PFloat float_one) (PStr ''float64'') PNone PNone
                   (PStr ''HashPartitioner'')))
   \<and> rdd_compute example_env (RDD [ [PObj ''P''], [PObj ''Q''] ] [Lam_dumps] True CtxSerializer)
       = Inr [ [PBytes [80] ], [PBytes [81] ] ]
   \<and> (\<exists>xss. rdd_compute example_env (RDD [ [PObj ''P''], [PObj ''Q''] ] [] False CtxSerializer)
               = Inr xss
           \<and> list_all2 (list_all2 (\<lambda>x y. \<exists>w. dumps example_env x = Inr w \<and> y = PBytes w))
                 xss [ [PBytes [80] ], [PBytes [81] ] ]
           \<and> map length [ [PBytes [80] ], [PBytes [81::8 word] ] ] = map length xss)
   \<and> (''rasterizeFeaturesWithZIndex'',
        [JavaRDD (RDD [ [PObj ''P''], [PObj ''Q''] ] [Lam_identity] False
                    (ProtoBufSerializer feature_cellvalue_decoder feature_cellvalue_encoder)),
         Py (PStr ''4326''), Py (PInt 3), Py (PStr ''float64''), Py PNone, Py PNone,
         Py (PStr ''int8''), Py (PStr ''HashPartitioner'')])
     \<in> set (fst (rasterize_features example_env
                   (PRDD (RDD [ [PObj ''P''], [PObj ''Q''] ] [] False CtxSerializer))
                   (PStr ''4326'') (PInt 3) (PStr ''float64'') PNone PNone (PStr ''int8'')
                   (PStr ''HashPartitioner'')))
   \<and> rdd_compute example_env
        (RDD [ [PObj ''P''], [PObj ''Q''] ] [Lam_identity] False
           (ProtoBufSerializer feature_cellvalue_decoder feature_cellvalue_encoder))
       = rdd_compute example_env (RDD [ [PObj ''P''], [PObj ''Q''] ] [] False CtxSerializer)"
proof -
  let ?r = "RDD [ [PObj ''P''], [PObj ''Q''] ] [] False CtxSerializer"
  let ?wkb = "RDD [ [PObj ''P''], [PObj ''Q''] ] [Lam_dumps] True CtxSerializer"
  let ?res = "RDD [ [PObj ''P''], [PObj ''Q''] ] [Lam_identity] False
                (ProtoBufSerializer feature_cellvalue_decoder feature_cellvalue_encoder)"
  let ?call = "(''rasterizeGeometry'',
      [JavaRDD ?wkb, Py (PStr ''4326''), Py (PInt 3), Py (PFloat float_one), Py (PStr ''float64''),
       Py PNone, Py PNone, Py (PStr ''HashPartitioner'')])"
  let ?call' = "(''rasterizeFeaturesWithZIndex'',
        [JavaRDD ?res, Py (PStr ''4326''), Py (PInt 3), Py (PStr ''float64''), Py PNone, Py PNone,
         Py (PStr ''int8''), Py (PStr ''HashPartitioner'')])"
  have h1: "?call \<in> set (fst (rasterize example_env (PRDD ?r) (PStr ''4326'') (PInt 3) (PFloat float_one)
                               (PStr ''float64'') PNone PNone (PStr ''HashPartitioner'')))"
    by (simp add: rasterize_def dispatch_def set_bypass_serializer_def Let_def example_env_simps)
  have h2: "submitted_rdd ?call = Some ?wkb" by simp
  have h3: "rdd_compute example_env ?wkb = Inr [ [PBytes [80] ], [PBytes [81] ] ]"
    by (simp add: rdd_compute_def example_env_simps label_bytes_simps)
  have h4: "?call' \<in> set (fst (rasterize_features example_env (PRDD ?r) (PStr ''4326'') (PInt 3)
                                (PStr ''float64'') PNone PNone (PStr ''int8'')
                                (PStr ''HashPartitioner'')))"
    by (simp add: rasterize_features_def dispatch_def Let_def example_env_simps)
  have h5: "submitted_rdd ?call' = Some ?res" by simp
  from per_element_map_keeps_order_and_partitions
         [of ?call example_env ?r "PStr ''4326''" "PInt 3" "PFloat float_one" "PStr ''float64''" PNone
             PNone "PStr ''HashPartitioner''" ?wkb "[ [PBytes [80] ], [PBytes [81] ] ]" ?call'
             "PStr ''int8''" ?res]
  show ?thesis using h1 h2 h3 h4 h5 by blast
qed

text \<open>
  Claim C9, as amended.  For a distributed collection of features, with parameters that
  normalise and an engine that answers with a handle, \<open>rasterize_features\<close> dispatches one
  call \<open>rasterizeFeaturesWithZIndex\<close> with the arguments (collection, crs, zoom, cell-type
  value, options, num_partitions, zindex cell-type value, partitioner value) and returns the
  handle wrapped as a spatial layer.  The collection submitted is what \<open>_reserialize\<close> returns
  for the serializer built from \<open>feature_cellvalue_decoder\<close> and
  \<open>feature_cellvalue_encoder\<close>: \<open>dumps\<close> is not mapped over it, and it has the partitions
  and the elements of the input.  When the serializer of the input does not compare equal
  to that serializer, or is that serializer already, the collection submitted is tagged
  with it and its elements are written with it.
\<close>

theorem rasterize_features_retags_and_submits:
  assumes "reserialize (ProtoBufSerializer feature_cellvalue_decoder feature_cellvalue_encoder)
             (PRDD r) = Inr reserialized_rdd"
    and "enum_value (Partitioner env) partitioner = Inr p"
    and "enum_value (CellType env) cell_type = Inr ct"
    and "enum_value (CellType env) zindex_cell_type = Inr zct"
    and "jvm env (''rasterizeFeaturesWithZIndex'',
                  [JavaRDD reserialized_rdd, Py (coerce_crs crs), Py zoom, Py (PStr ct),
                   Py options, Py num_partitions, Py (PStr zct), Py (PStr p)]) = Inr srdd"
  shows "rasterize_features env (PRDD r) crs zoom cell_type options num_partitions
             zindex_cell_type partitioner
           = ([(''rasterizeFeaturesWithZIndex'',
                [JavaRDD reserialized_rdd, Py (coerce_crs crs), Py zoom, Py (PStr ct),
                 Py options, Py num_partitions, Py (PStr zct), Py (PStr p)])],
              Inr (TiledRasterLayer SPATIAL srdd))
         \<and> Lam_dumps \<notin> set (func reserialized_rdd) - set (func r)
         \<and> partitions reserialized_rdd = partitions r
         \<and> rdd_compute env reserialized_rdd = rdd_compute env r
         \<and> (\<not> serializer_eq (jrdd_deserializer r)
                  (ProtoBufSerializer feature_cellvalue_decoder feature_cellvalue_encoder)
              \<or> jrdd_deserializer r
                  = ProtoBufSerializer feature_cellvalue_decoder feature_cellvalue_encoder
             \<longrightarrow> jrdd_deserializer reserialized_rdd
                   = ProtoBufSerializer feature_cellvalue_decoder feature_cellvalue_encoder
                 \<and> (\<not> bypass_serializer r \<longrightarrow>
                      rdd_wire env reserialized_rdd
                        = bind (rdd_compute env r)
                            (mapM (serialize env (ProtoBufSerializer feature_cellvalue_decoder
                                                    feature_cellvalue_encoder)))))"
proof -
  let ?ser = "ProtoBufSerializer feature_cellvalue_decoder feature_cellvalue_encoder"
  let ?res = "RDD (partitions r) (func r @ [Lam_identity]) False ?ser"
  have call: "rasterize_features env (PRDD r) crs zoom cell_type options num_partitions
             zindex_cell_type partitioner
           = ([(''rasterizeFeaturesWithZIndex'',
                [JavaRDD reserialized_rdd, Py (coerce_crs crs), Py zoom, Py (PStr ct),
                 Py options, Py num_partitions, Py (PStr zct), Py (PStr p)])],
              Inr (TiledRasterLayer SPATIAL srdd))"
    using assms by (simp add: rasterize_features_def dispatch_def Let_def del: reserialize.simps)
  have cases: "reserialized_rdd = (if serializer_eq (jrdd_deserializer r) ?ser then r else ?res)"
    using assms(1) by (simp split: if_splits)
  have shape: "Lam_dumps \<notin> set (func reserialized_rdd) - set (func r)
         \<and> partitions reserialized_rdd = partitions r
         \<and> rdd_compute env reserialized_rdd = rdd_compute env r"
    unfolding cases by (simp add: rdd_compute_reserialized)
  have tag: "\<not> serializer_eq (jrdd_deserializer r) ?ser \<or> jrdd_deserializer r = ?ser
             \<longrightarrow> jrdd_deserializer reserialized_rdd = ?ser
                 \<and> (\<not> bypass_serializer r \<longrightarrow>
                      rdd_wire env reserialized_rdd
                        = bind (rdd_compute env r) (mapM (serialize env ?ser)))"
  proof
    assume h: "\<not> serializer_eq (jrdd_deserializer r) ?ser \<or> jrdd_deserializer r = ?ser"
    show "jrdd_deserializer reserialized_rdd = ?ser
                 \<and> (\<not> bypass_serializer r \<longrightarrow>
                      rdd_wire env reserialized_rdd
                        = bind (rdd_compute env r) (mapM (serialize env ?ser)))"
    proof (cases "serializer_eq (jrdd_deserializer r) ?ser")
      case True
      with h have t: "jrdd_deserializer r = ?ser" by blast
      from True cases have eq: "reserialized_rdd = r" by simp
      have "\<not> bypass_serializer r \<longrightarrow>
          rdd_wire env r = bind (rdd_compute env r) (mapM (serialize env ?ser))"
      proof
        assume "\<not> bypass_serializer r"
        then have "write_partition env r = serialize env ?ser"
          using t by (intro ext) (simp add: write_partition_def)
        then show "rdd_wire env r = bind (rdd_compute env r) (mapM (serialize env ?ser))"
          by (simp add: rdd_wire_def)
      qed
      with t eq show ?thesis by simp
    next
      case False
      with cases have eq: "reserialized_rdd = ?res" by simp
      have "write_partition env ?res = serialize env ?ser"
        by (intro ext) (simp add: write_partition_def)
      then have "rdd_wire env ?res = bind (rdd_compute env r) (mapM (serialize env ?ser))"
        by (simp add: rdd_wire_def rdd_compute_reserialized)
      then show ?thesis unfolding eq by simp
    qed
  qed
  from call shape tag show ?thesis by blast
qed

theorem rasterize_features_retags_and_submits_witness:
  "reserialize (ProtoBufSerializer feature_cellvalue_decoder feature_cellvalue_encoder)
       (PRDD (RDD [ [PObj ''P''], [PObj ''Q''] ] [] False CtxSerializer))
     = Inr (RDD [ [PObj ''P''], [PObj ''Q''] ] [Lam_identity] False
              (ProtoBufSerializer feature_cellvalue_decoder feature_cellvalue_encoder))
   \<and> enum_value (Partitioner example_env) (PStr ''HashPartitioner'') = Inr ''HashPartitioner''
   \<and> enum_value (CellType example_env) (PStr ''float64'') = Inr ''float64''
   \<and> enum_value (CellType example_env) (PStr ''int8'') = Inr ''int8''
   \<and> \<not> serializer_eq (jrdd_deserializer (RDD [ [PObj ''P''], [PObj ''Q''] ] [] False CtxSerializer))
         (ProtoBufSerializer feature_cellvalue_decoder feature_cellvalue_encoder)
   \<and> \<not> bypass_serializer (RDD [ [PObj ''P''], [PObj ''Q''] ] [] False CtxSerializer)
   \<and> rasterize_features example_env
        (PRDD (RDD [ [PObj ''P''], [PObj ''Q''] ] [] False CtxSerializer))
        (PInt 4326) (PInt 3) (PStr ''float64'') PNone PNone (PStr ''int8'')
        (PStr ''HashPartitioner'')
       = ([(''rasterizeFeaturesWithZIndex'',
            [JavaRDD (RDD [ [PObj ''P''], [PObj ''Q''] ] [Lam_identity] False
                        (ProtoBufSerializer feature_cellvalue_decoder feature_cellvalue_encoder)),
             Py (coerce_crs (PInt 4326)), Py (PInt 3), Py (PStr ''float64''), Py PNone,
             Py PNone, Py (PStr ''int8''), Py (PStr ''HashPartitioner'')])],
          Inr (TiledRasterLayer SPATIAL ''o42''))
   \<and> jrdd_deserializer
        (RDD [ [PObj ''P''], [PObj ''Q''] ] [Lam_identity] False
           (ProtoBufSerializer feature_cellvalue_decoder feature_cellvalue_encoder))
       = ProtoBufSerializer feature_cellvalue_decoder feature_cellvalue_encoder
   \<and> rdd_wire example_env
        (RDD [ [PObj ''P''], [PObj ''Q''] ] [Lam_identity] False
           (ProtoBufSerializer feature_cellvalue_decoder feature_cellvalue_encoder))
       = bind (rdd_compute example_env (RDD [ [PObj ''P''], [PObj ''Q''] ] [] False CtxSerializer))
           (mapM (serialize example_env
                    (ProtoBufSerializer feature_cellvalue_decoder feature_cellvalue_encoder)))"
proof -
  let ?ser = "ProtoBufSerializer feature_cellvalue_decoder feature_cellvalue_encoder"
  let ?r = "RDD [ [PObj ''P''], [PObj ''Q''] ] [] False CtxSerializer"
  let ?res = "RDD [ [PObj ''P''], [PObj ''Q''] ] [Lam_identity] False ?ser"
  have h1: "reserialize ?ser (PRDD ?r) = Inr ?res" by simp
  have h2: "enum_value (Partitioner example_env) (PStr ''HashPartitioner'') = Inr ''HashPartitioner''"
    by (simp add: example_env_simps)
  have h3: "enum_value (CellType example_env) (PStr ''float64'') = Inr ''float64''"
    by (simp add: example_env_simps)
  have h4: "enum_value (CellType example_env) (PStr ''int8'') = Inr ''int8''"
    by (simp add: example_env_simps)
  have h5: "jvm example_env (''rasterizeFeaturesWithZIndex'',
                  [JavaRDD ?res, Py (coerce_crs (PInt 4326)), Py (PInt 3), Py (PStr ''float64''),
                   Py PNone, Py PNone, Py (PStr ''int8''), Py (PStr ''HashPartitioner'')])
              = Inr ''o42''"
    by (simp add: example_env_def base_env_def rdd_wire_def rdd_compute_def write_partition_def
          label_bytes_simps)
  have h6: "\<not> bypass_serializer ?r" by simp
  have h7: "\<not> serializer_eq (jrdd_deserializer ?r) ?ser" by simp
  from rasterize_features_retags_and_submits [OF h1 h2 h3 h4 h5]
  show ?thesis using h1 h2 h3 h4 h6 h7 by blast
qed

text \<open>
  Claim C9 as stated fails on the code: a collection tagged with a \<open>ProtoBufSerializer\<close>
  built from other functions compares equal to the feature/CellValue serializer, so
  \<open>_reserialize\<close> returns it as it is and it is submitted with the tag it had.
\<close>

theorem retag_with_cellvalue_codec_counterexample:
  "rasterize_features example_env
     (PRDD (RDD [ [PObj ''P''] ] [] False
              (ProtoBufSerializer (other_codec ''feature_decoder'')
                 (other_codec ''feature_encoder''))))
     (PInt 4326) (PInt 3) (PStr ''float64'') PNone PNone (PStr ''int8'')
     (PStr ''HashPartitioner'')
   = ([(''rasterizeFeaturesWithZIndex'',
        [JavaRDD (RDD [ [PObj ''P''] ] [] False
                    (ProtoBufSerializer (other_codec ''feature_decoder'')
                       (other_codec ''feature_encoder''))),
         Py (PStr ''4326''), Py (PInt 3), Py (PStr ''float64''), Py PNone, Py PNone,
         Py (PStr ''int8''), Py (PStr ''HashPartitioner'')])],
      Inr (TiledRasterLayer SPATIAL ''o42''))
   \<and> ProtoBufSerializer (other_codec ''feature_decoder'') (other_codec ''feature_encoder'')
       \<noteq> ProtoBufSerializer feature_cellvalue_decoder feature_cellvalue_encoder"
  by (simp add: rasterize_features_def dispatch_def Let_def example_env_simps
        str_int_def digits.simps digit_char_def)
     (simp add: example_env_def base_env_def rdd_wire_def rdd_compute_def write_partition_def
        label_bytes_simps)

text \<open>
  Claim C10.  \<open>rasterize\<close> takes the list path exactly when \<open>geoms\<close> is a list or a tuple.
  Any other value goes down the collection path: when it has no \<open>map\<close> attribute the
  operation ends with \<open>AttributeError\<close> and no call dispatched (or, when the partitioner
  resolved on line 47 is unrecognised, with that earlier error); any call dispatched on this
  path has the eight arguments of the collection form, a collection first.  On the list path
  any call dispatched has the nine arguments of the local form.
\<close>

theorem rasterize_path_chosen_by_list_or_tuple:
  "(list_or_tuple geoms = None \<longleftrightarrow> (\<forall>xs. geoms \<noteq> PList xs \<and> geoms \<noteq> PTuple xs))
   \<and> (list_or_tuple geoms = None \<and> \<not> hasattr_map geoms \<longrightarrow>
        rasterize env geoms crs zoom fill_value cell_type options num_partitions partitioner
          = ([], case enum_value (Partitioner env) partitioner of
                   Inl e \<Rightarrow> Inl e
                 | Inr p \<Rightarrow> Inl AttributeError))
   \<and> (list_or_tuple geoms = None \<longrightarrow>
        (\<forall>call \<in> set (fst (rasterize env geoms crs zoom fill_value cell_type options
                               num_partitions partitioner)).
           hasattr_map geoms \<and> length (snd call) = 8
           \<and> (\<exists>wkb_rdd. hd (snd call) = JavaRDD wkb_rdd)))
   \<and> (list_or_tuple geoms = Some gs \<longrightarrow>
        (\<forall>call \<in> set (fst (rasterize env geoms crs zoom fill_value cell_type options
                               num_partitions partitioner)).
           length (snd call) = 9 \<and> hd (snd call) = JavaObject (sc env)
           \<and> (\<exists>wkb_geoms. mapM (dumps env) gs = Inr wkb_geoms
                 \<and> snd call ! 1 = Py (PList (map PBytes wkb_geoms)))))"
proof (intro conjI impI)
  show "list_or_tuple geoms = None \<longleftrightarrow> (\<forall>xs. geoms \<noteq> PList xs \<and> geoms \<noteq> PTuple xs)"
    by (cases geoms) simp_all
next
  assume "list_or_tuple geoms = None \<and> \<not> hasattr_map geoms"
  then show "rasterize env geoms crs zoom fill_value cell_type options num_partitions partitioner
          = ([], case enum_value (Partitioner env) partitioner of
                   Inl e \<Rightarrow> Inl e
                 | Inr p \<Rightarrow> Inl AttributeError)"
    by (simp add: rasterize_def Let_def rdd_map_no_attr split: sum.splits)
next
  assume "list_or_tuple geoms = None"
  then show "\<forall>call \<in> set (fst (rasterize env geoms crs zoom fill_value cell_type options
                               num_partitions partitioner)).
           hasattr_map geoms \<and> length (snd call) = 8
           \<and> (\<exists>wkb_rdd. hd (snd call) = JavaRDD wkb_rdd)"
    by (auto simp: rasterize_def dispatch_def Let_def split: sum.splits dest: rdd_map_Inr_attr)
next
  assume "list_or_tuple geoms = Some gs"
  then show "\<forall>call \<in> set (fst (rasterize env geoms crs zoom fill_value cell_type options
                               num_partitions partitioner)).
           length (snd call) = 9 \<and> hd (snd call) = JavaObject (sc env)
           \<and> (\<exists>wkb_geoms. mapM (dumps env) gs = Inr wkb_geoms
                 \<and> snd call ! 1 = Py (PList (map PBytes wkb_geoms)))"
    by (auto simp: rasterize_def dispatch_def Let_def split: sum.splits)
qed

theorem rasterize_path_chosen_by_list_or_tuple_witness:
  "list_or_tuple (PObj ''POINT (1 2)'') = None \<and> \<not> hasattr_map (PObj ''POINT (1 2)'')
   \<and> rasterize example_env (PObj ''POINT (1 2)'') (PInt 4326) (PInt 3) (PFloat float_one)
        (PStr ''float64'') PNone PNone (PStr ''HashPartitioner'')
       = ([], Inl AttributeError)
   \<and> list_or_tuple (PRDD (RDD [ [PObj ''P''] ] [] False CtxSerializer)) = None
   \<and> fst (rasterize example_env (PRDD (RDD [ [PObj ''P''] ] [] False CtxSerializer)) (PInt 4326)
            (PInt 3) (PFloat float_one) (PStr ''float64'') PNone PNone (PStr ''HashPartitioner'')) \<noteq> []
   \<and> length (snd (hd (fst (rasterize example_env
                             (PRDD (RDD [ [PObj ''P''] ] [] False CtxSerializer))
                             (PInt 4326) (PInt 3) (PFloat float_one) (PStr ''float64'') PNone PNone
                             (PStr ''HashPartitioner''))))) = 8
   \<and> (\<exists>wkb_rdd. hd (snd (hd (fst (rasterize example_env
                             (PRDD (RDD [ [PObj ''P''] ] [] False CtxSerializer))
                             (PInt 4326) (PInt 3) (PFloat float_one) (PStr ''float64'') PNone PNone
                             (PStr ''HashPartitioner''))))) = JavaRDD wkb_rdd)
   \<and> list_or_tuple (PList [PObj ''P'']) = Some [PObj ''P'']
   \<and> fst (rasterize example_env (PList [PObj ''P'']) (PInt 4326) (PInt 3) (PFloat float_one)
            (PStr ''float64'') PNone PNone (PStr ''HashPartitioner'')) \<noteq> []
   \<and> length (snd (hd (fst (rasterize example_env (PList [PObj ''P'']) (PInt 4326) (PInt 3)
                             (PFloat float_one) (PStr ''float64'') PNone PNone
                             (PStr ''HashPartitioner''))))) = 9
   \<and> hd (snd (hd (fst (rasterize example_env (PList [PObj ''P'']) (PInt 4326) (PInt 3)
                         (PFloat float_one) (PStr ''float64'') PNone PNone
                         (PStr ''HashPartitioner''))))) = JavaObject (sc example_env)"
proof -
  let ?L = "fst (rasterize example_env (PRDD (RDD [ [PObj ''P''] ] [] False CtxSerializer))
                   (PInt 4326) (PInt 3) (PFloat float_one) (PStr ''float64'') PNone PNone
                   (PStr ''HashPartitioner''))"
  let ?M = "fst (rasterize example_env (PList [PObj ''P'']) (PInt 4326) (PInt 3) (PFloat float_one)
                   (PStr ''float64'') PNone PNone (PStr ''HashPartitioner''))"
  have h1: "list_or_tuple (PObj ''POINT (1 2)'') = None \<and> \<not> hasattr_map (PObj ''POINT (1 2)'')"
    by simp
  have h2: "list_or_tuple (PRDD (RDD [ [PObj ''P''] ] [] False CtxSerializer)) = None" by simp
  have h3: "list_or_tuple (PList [PObj ''P'']) = Some [PObj ''P'']" by simp
  have p: "enum_value (Partitioner example_env) (PStr ''HashPartitioner'') = Inr ''HashPartitioner''"
    by (simp add: example_env_simps)
  have n2: "?L \<noteq> []"
    by (simp add: rasterize_def dispatch_def Let_def example_env_simps)
  have n3: "?M \<noteq> []"
    by (simp add: rasterize_def dispatch_def Let_def example_env_simps label_bytes_simps)
  from n2 have m2: "hd ?L \<in> set ?L" by (rule hd_in_set)
  from n3 have m3: "hd ?M \<in> set ?M" by (rule hd_in_set)
  have a: "rasterize example_env (PObj ''POINT (1 2)'') (PInt 4326) (PInt 3) (PFloat float_one)
        (PStr ''float64'') PNone PNone (PStr ''HashPartitioner'')
       = ([], Inl AttributeError)"
    using rasterize_path_chosen_by_list_or_tuple
            [of "PObj ''POINT (1 2)''" example_env "PInt 4326" "PInt 3" "PFloat float_one"
                "PStr ''float64''" PNone PNone "PStr ''HashPartitioner''" "[]"] h1 p
    by simp
  have b: "length (snd (hd ?L)) = 8 \<and> (\<exists>wkb_rdd. hd (snd (hd ?L)) = JavaRDD wkb_rdd)"
    using rasterize_path_chosen_by_list_or_tuple
            [of "PRDD (RDD [ [PObj ''P''] ] [] False CtxSerializer)" example_env "PInt 4326"
                "PInt 3" "PFloat float_one" "PStr ''float64''" PNone PNone "PStr ''HashPartitioner''"
                "[]"] h2 m2
    by blast
  have c: "length (snd (hd ?M)) = 9 \<and> hd (snd (hd ?M)) = JavaObject (sc example_env)"
    using rasterize_path_chosen_by_list_or_tuple
            [of "PList [PObj ''P'']" example_env "PInt 4326" "PInt 3" "PFloat float_one"
                "PStr ''float64''" PNone PNone "PStr ''HashPartitioner''" "[PObj ''P'']"] h3 m3
    by blast
  show ?thesis using h1 h2 h3 n2 n3 a b c by blast
qed

end
